theory Spec2Isabelle
  imports Main
begin

section \<open>Python values used by the CoCoRaHS backend\<close>

text \<open>
  The development embeds \<^verbatim>\<open>src/cocorahs_backend.py\<close>: the five stage functions
  \<^verbatim>\<open>login_to_cocorahs\<close>, \<^verbatim>\<open>navigate_to_precip_form\<close>, \<^verbatim>\<open>select_station\<close>,
  \<^verbatim>\<open>fill_form_fields\<close>, \<^verbatim>\<open>submit_form\<close> and the endpoint \<^verbatim>\<open>submit_cocorahs\<close>.

  A character of a \<^typ>\<open>string\<close> is a code point below 256 (ASCII and the Latin-1
  range), and the string operations are Python's on these code points. Every exception the code can meet is an instance of
  Python's \<^verbatim>\<open>Exception\<close> (Selenium's errors, \<^verbatim>\<open>ValueError\<close>, \<^verbatim>\<open>KeyError\<close>,
  \<^verbatim>\<open>TypeError\<close>), so \<^verbatim>\<open>except Exception\<close> and a bare \<^verbatim>\<open>except\<close> catch the same
  values; each exception carries the text \<^verbatim>\<open>str(e)\<close> gives.
\<close>

datatype exn =
    NoSuchElementException string
  | WebDriverException string
  | ValueError string
  | TypeError string
  | KeyError string

fun str_exn :: "exn \<Rightarrow> string" where
  "str_exn (NoSuchElementException m) = m"
| "str_exn (WebDriverException m) = m"
| "str_exn (ValueError m) = m"
| "str_exn (TypeError m) = m"
| "str_exn (KeyError m) = m"

subsection \<open>Strings: \<^verbatim>\<open>in\<close>, \<^verbatim>\<open>lower\<close>, \<^verbatim>\<open>strip\<close>, \<^verbatim>\<open>str\<close>, \<^verbatim>\<open>zfill\<close>\<close>

text \<open>\<^verbatim>\<open>sub in s\<close> on strings: \<^verbatim>\<open>sub\<close> occurs in \<^verbatim>\<open>s\<close> as a contiguous run.\<close>

fun py_in :: "string \<Rightarrow> string \<Rightarrow> bool" where
  "py_in sub [] = (sub = [])"
| "py_in sub (c # cs) = (take (length sub) (c # cs) = sub \<or> py_in sub cs)"

text \<open>\<^verbatim>\<open>str.lower()\<close> on one character: the letters A to Z, and in the Latin-1 range the
  letters 0xC0 to 0xDE without the multiplication sign 0xD7, move to the letter 0x20
  above; every other character stays.\<close>

definition upper_latin1 :: "char list" where
  "upper_latin1 =
     [CHR 0xC0, CHR 0xC1, CHR 0xC2, CHR 0xC3, CHR 0xC4, CHR 0xC5, CHR 0xC6, CHR 0xC7,
      CHR 0xC8, CHR 0xC9, CHR 0xCA, CHR 0xCB, CHR 0xCC, CHR 0xCD, CHR 0xCE, CHR 0xCF,
      CHR 0xD0, CHR 0xD1, CHR 0xD2, CHR 0xD3, CHR 0xD4, CHR 0xD5, CHR 0xD6,
      CHR 0xD8, CHR 0xD9, CHR 0xDA, CHR 0xDB, CHR 0xDC, CHR 0xDD, CHR 0xDE]"

definition lower_latin1 :: "char list" where
  "lower_latin1 =
     [CHR 0xE0, CHR 0xE1, CHR 0xE2, CHR 0xE3, CHR 0xE4, CHR 0xE5, CHR 0xE6, CHR 0xE7,
      CHR 0xE8, CHR 0xE9, CHR 0xEA, CHR 0xEB, CHR 0xEC, CHR 0xED, CHR 0xEE, CHR 0xEF,
      CHR 0xF0, CHR 0xF1, CHR 0xF2, CHR 0xF3, CHR 0xF4, CHR 0xF5, CHR 0xF6,
      CHR 0xF8, CHR 0xF9, CHR 0xFA, CHR 0xFB, CHR 0xFC, CHR 0xFD, CHR 0xFE]"

definition char_lower :: "char \<Rightarrow> char" where
  "char_lower c =
     (case map_of (zip (''ABCDEFGHIJKLMNOPQRSTUVWXYZ'' @ upper_latin1)
                       (''abcdefghijklmnopqrstuvwxyz'' @ lower_latin1)) c of
        Some l \<Rightarrow> l
      | None \<Rightarrow> c)"

definition lower :: "string \<Rightarrow> string" where
  "lower s = map char_lower s"

text \<open>The characters \<^verbatim>\<open>str.strip()\<close> removes: tab, line feed, vertical tab, form
  feed, carriage return, the four separators 0x1C to 0x1F, the space, the next-line
  character 0x85 and the no-break space 0xA0.\<close>

definition whitespace :: "char list" where
  "whitespace =
     [CHR 0x09, CHR 0x0A, CHR 0x0B, CHR 0x0C, CHR 0x0D,
      CHR 0x1C, CHR 0x1D, CHR 0x1E, CHR 0x1F, CHR '' '', CHR 0x85, CHR 0xA0]"

definition is_space :: "char \<Rightarrow> bool" where
  "is_space c = (c \<in> set whitespace)"

definition strip :: "string \<Rightarrow> string" where
  "strip s = rev (dropWhile is_space (rev (dropWhile is_space s)))"

definition digit_char :: "nat \<Rightarrow> char" where
  "digit_char n = ''0123456789'' ! n"

text \<open>\<^verbatim>\<open>str(n)\<close> of a non-negative integer: its decimal digits.\<close>

fun str_nat :: "nat \<Rightarrow> string" where
  "str_nat n =
     (if n < 10 then [digit_char n] else str_nat (n div 10) @ [digit_char (n mod 10)])"

declare str_nat.simps [simp del]

definition str_int :: "int \<Rightarrow> string" where
  "str_int i = (if i < 0 then CHR ''-'' # str_nat (nat (- i)) else str_nat (nat i))"

text \<open>\<^verbatim>\<open>s.zfill(width)\<close>: zeros are added on the left up to \<^verbatim>\<open>width\<close>, after a leading
  sign when there is one; a string that is long enough is returned as it is.\<close>

definition zfill :: "nat \<Rightarrow> string \<Rightarrow> string" where
  "zfill width s =
     (if width \<le> length s then s
      else (case s of
              c # cs \<Rightarrow>
                if c = CHR ''+'' \<or> c = CHR ''-''
                then c # replicate (width - length s) CHR ''0'' @ cs
                else replicate (width - length s) CHR ''0'' @ s
            | [] \<Rightarrow> replicate width CHR ''0''))"

subsection \<open>The request payload\<close>

text \<open>
  \<^verbatim>\<open>request.get_json()\<close> gives a dictionary from keys to JSON scalars. A JSON number with
  a fraction is a Python float; the program only takes its \<^verbatim>\<open>str\<close> and its truth value,
  so a float is carried as the text \<^verbatim>\<open>repr\<close> prints. Nested arrays and objects as field
  values are not modelled.
\<close>

datatype jvalue = JNull | JBool bool | JInt int | JFloat string | JStr string

type_synonym form_data = "string \<Rightarrow> jvalue option"

fun py_str :: "jvalue \<Rightarrow> string" where
  "py_str JNull = ''None''"
| "py_str (JBool b) = (if b then ''True'' else ''False'')"
| "py_str (JInt i) = str_int i"
| "py_str (JFloat r) = r"
| "py_str (JStr s) = s"

fun truthy :: "jvalue \<Rightarrow> bool" where
  "truthy JNull = False"
| "truthy (JBool b) = b"
| "truthy (JInt i) = (i \<noteq> 0)"
| "truthy (JFloat r) = (r \<noteq> ''0.0'' \<and> r \<noteq> ''-0.0'')"
| "truthy (JStr s) = (s \<noteq> [])"

text \<open>The truth value of \<^verbatim>\<open>form_data.get(key)\<close>: a missing key gives \<^verbatim>\<open>None\<close>.\<close>

definition get_truthy :: "form_data \<Rightarrow> string \<Rightarrow> bool" where
  "get_truthy form_data key = (case form_data key of None \<Rightarrow> False | Some v \<Rightarrow> truthy v)"

text \<open>\<^verbatim>\<open>str(form_data.get(key, ''))\<close>.\<close>

definition get_str :: "form_data \<Rightarrow> string \<Rightarrow> string" where
  "get_str form_data key = (case form_data key of None \<Rightarrow> [] | Some v \<Rightarrow> py_str v)"

text \<open>The fields of a \<^verbatim>\<open>datetime\<close> that the program reads.\<close>

record datetime =
  year :: nat
  month :: nat
  day :: nat
  hour :: nat
  minute :: nat

section \<open>The browser, the remote site and the driver\<close>

text \<open>
  A \<^verbatim>\<open>WebElement\<close> is a handle. A page is what the driver's read-only calls return on
  it; each of them may raise. The remote site and the browser are a black box: a state
  \<open>'w\<close> of which the program sees the current page, which reacts to the driver's actions
  (and may raise there), and which moves on while the program sleeps.
\<close>

type_synonym element = nat

datatype By = ID | NAME | CSS_SELECTOR | TAG_NAME | CLASS_NAME

type_synonym selector = "By \<times> string"

record page =
  title :: "exn + string"
  current_url :: "exn + string"
  find_element :: "selector \<Rightarrow> exn + element"
  find_elements :: "selector \<Rightarrow> exn + element list"
  get_attribute :: "element \<Rightarrow> string \<Rightarrow> exn + string option"
  text_of :: "element \<Rightarrow> exn + string"

datatype action =
    Get string
  | Clear element
  | SendKeys element string
  | Click element

text \<open>What lies outside the program: the site with its browser, the start of Chrome,
  and \<^verbatim>\<open>datetime.fromisoformat\<close> of the standard library.\<close>

record 'w env =
  observe :: "'w \<Rightarrow> page"
  react :: "action \<Rightarrow> 'w \<Rightarrow> exn option \<times> 'w"
  elapse :: "nat \<Rightarrow> 'w \<Rightarrow> 'w"
  chrome :: "exn + 'w"
  fromisoformat :: "string \<Rightarrow> exn + datetime"

text \<open>The driver calls the program makes, in the order it makes them.\<close>

datatype call =
    Did action
  | FindElement selector
  | FindElements selector
  | Title
  | CurrentUrl
  | GetAttribute element string
  | Text element
  | Quit

record 'w driver =
  world :: 'w
  calls :: "call list"

subsection \<open>Statements: continue, return, raise\<close>

text \<open>
  A run of statements on the driver ends in one of three ways: it falls through to the
  next statement with a value, it executes \<^verbatim>\<open>return\<close>, or it raises.
\<close>

datatype ('a, 'r) outcome = Next 'a | Return 'r | Raise exn

type_synonym ('a, 'r, 'w) prog = "'w driver \<Rightarrow> ('a, 'r) outcome \<times> 'w driver"

definition proceed :: "'a \<Rightarrow> ('a, 'r, 'w) prog" where
  "proceed x = (\<lambda>d. (Next x, d))"

definition ret :: "'r \<Rightarrow> ('a, 'r, 'w) prog" where
  "ret r = (\<lambda>d. (Return r, d))"

definition andthen :: "('a, 'r, 'w) prog \<Rightarrow> ('a \<Rightarrow> ('b, 'r, 'w) prog) \<Rightarrow> ('b, 'r, 'w) prog" where
  "andthen m k =
     (\<lambda>d. case m d of
             (Next x, d') \<Rightarrow> k x d'
           | (Return r, d') \<Rightarrow> (Return r, d')
           | (Raise e, d') \<Rightarrow> (Raise e, d'))"

text \<open>\<^verbatim>\<open>try: m except: h\<close>: a \<^verbatim>\<open>return\<close> inside the \<^verbatim>\<open>try\<close> leaves the function.\<close>

definition try_except :: "('a, 'r, 'w) prog \<Rightarrow> (exn \<Rightarrow> ('a, 'r, 'w) prog) \<Rightarrow> ('a, 'r, 'w) prog" where
  "try_except m h =
     (\<lambda>d. case m d of
             (Raise e, d') \<Rightarrow> h e d'
           | (Next x, d') \<Rightarrow> (Next x, d')
           | (Return r, d') \<Rightarrow> (Return r, d'))"

definition lift :: "exn + 'a \<Rightarrow> ('a, 'r, 'w) prog" where
  "lift r = (\<lambda>d. (case r of Inl e \<Rightarrow> Raise e | Inr v \<Rightarrow> Next v, d))"

subsection \<open>Driver calls\<close>

definition query :: "'w env \<Rightarrow> call \<Rightarrow> (page \<Rightarrow> exn + 'a) \<Rightarrow> ('a, 'r, 'w) prog" where
  "query env c f =
     (\<lambda>d. (case f (observe env (world d)) of Inl e \<Rightarrow> Raise e | Inr v \<Rightarrow> Next v,
            d\<lparr>calls := calls d @ [c]\<rparr>))"

definition perform :: "'w env \<Rightarrow> action \<Rightarrow> (unit, 'r, 'w) prog" where
  "perform env a =
     (\<lambda>d. case react env a (world d) of
             (r, w') \<Rightarrow>
               (case r of Some e \<Rightarrow> Raise e | None \<Rightarrow> Next (),
                d\<lparr>world := w', calls := calls d @ [Did a]\<rparr>))"

definition driver_get :: "'w env \<Rightarrow> string \<Rightarrow> (unit, 'r, 'w) prog" where
  "driver_get env url = perform env (Get url)"

definition driver_title :: "'w env \<Rightarrow> (string, 'r, 'w) prog" where
  "driver_title env = query env Title title"

definition driver_current_url :: "'w env \<Rightarrow> (string, 'r, 'w) prog" where
  "driver_current_url env = query env CurrentUrl current_url"

definition driver_find_element :: "'w env \<Rightarrow> selector \<Rightarrow> (element, 'r, 'w) prog" where
  "driver_find_element env sel = query env (FindElement sel) (\<lambda>p. find_element p sel)"

definition driver_find_elements :: "'w env \<Rightarrow> selector \<Rightarrow> (element list, 'r, 'w) prog" where
  "driver_find_elements env sel = query env (FindElements sel) (\<lambda>p. find_elements p sel)"

definition elem_get_attribute :: "'w env \<Rightarrow> element \<Rightarrow> string \<Rightarrow> (string option, 'r, 'w) prog" where
  "elem_get_attribute env el name = query env (GetAttribute el name) (\<lambda>p. get_attribute p el name)"

definition elem_text :: "'w env \<Rightarrow> element \<Rightarrow> (string, 'r, 'w) prog" where
  "elem_text env el = query env (Text el) (\<lambda>p. text_of p el)"

definition elem_clear :: "'w env \<Rightarrow> element \<Rightarrow> (unit, 'r, 'w) prog" where
  "elem_clear env el = perform env (Clear el)"

definition elem_send_keys :: "'w env \<Rightarrow> element \<Rightarrow> string \<Rightarrow> (unit, 'r, 'w) prog" where
  "elem_send_keys env el keys = perform env (SendKeys el keys)"

definition elem_click :: "'w env \<Rightarrow> element \<Rightarrow> (unit, 'r, 'w) prog" where
  "elem_click env el = perform env (Click el)"

text \<open>\<^verbatim>\<open>time.sleep(seconds)\<close>: the site moves on; nothing is raised.\<close>

definition time_sleep :: "'w env \<Rightarrow> nat \<Rightarrow> (unit, 'r, 'w) prog" where
  "time_sleep env seconds = (\<lambda>d. (Next (), d\<lparr>world := elapse env seconds (world d)\<rparr>))"

text \<open>\<^verbatim>\<open>driver.quit()\<close> releases the session; it is taken to return normally.\<close>

definition driver_quit :: "'w driver \<Rightarrow> 'w driver" where
  "driver_quit d = d\<lparr>calls := calls d @ [Quit]\<rparr>"

text \<open>
  A stage function is \<^verbatim>\<open>def f(driver): try: body except Exception: return False\<close>.
  No body of the program falls off its end; Python would return \<^verbatim>\<open>None\<close> there, which
  the caller's \<^verbatim>\<open>if not f(driver)\<close> reads as failure.
\<close>

definition stage :: "(unit, bool, 'w) prog \<Rightarrow> 'w driver \<Rightarrow> (exn + bool) \<times> 'w driver" where
  "stage body =
     (\<lambda>d. case body d of
             (Return b, d') \<Rightarrow> (Inr b, d')
           | (Raise e, d') \<Rightarrow> (Inr False, d')
           | (Next u, d') \<Rightarrow> (Inr False, d'))"

section \<open>Configuration\<close>

definition COCORAHS_USERNAME :: string where
  "COCORAHS_USERNAME = ''lscwx''"

definition COCORAHS_PASSWORD :: string where
  "COCORAHS_PASSWORD = ''stratus''"

definition COCORAHS_STATION :: string where
  "COCORAHS_STATION = ''VT-CL-14''"

definition COCORAHS_LOGIN_URL :: string where
  "COCORAHS_LOGIN_URL = ''https://www.cocorahs.org/Login.aspx''"

definition COCORAHS_SUBMIT_URL :: string where
  "COCORAHS_SUBMIT_URL = ''https://www.cocorahs.org/Admin/MyDataEntry/DailyPrecipReport.aspx''"

section \<open>Authentication stage: \<^verbatim>\<open>login_to_cocorahs\<close>\<close>

text \<open>Lines 60 to 66: the attributes of every input are read for the log.\<close>

primrec log_login_inputs :: "'w env \<Rightarrow> element list \<Rightarrow> (unit, 'r, 'w) prog" where
  "log_login_inputs env [] = proceed ()"
| "log_login_inputs env (inp # rest) =
     andthen (elem_get_attribute env inp ''id'') (\<lambda>inp_id.
     andthen (elem_get_attribute env inp ''name'') (\<lambda>inp_name.
     andthen (elem_get_attribute env inp ''type'') (\<lambda>inp_type.
     log_login_inputs env rest)))"

text \<open>Lines 69 to 75: the same for every button, with its text.\<close>

primrec log_login_buttons :: "'w env \<Rightarrow> element list \<Rightarrow> (unit, 'r, 'w) prog" where
  "log_login_buttons env [] = proceed ()"
| "log_login_buttons env (btn # rest) =
     andthen (elem_get_attribute env btn ''id'') (\<lambda>btn_id.
     andthen (elem_get_attribute env btn ''name'') (\<lambda>btn_name.
     andthen (elem_text env btn) (\<lambda>btn_text.
     log_login_buttons env rest)))"

text \<open>
  The loop the stage runs three times (lines 96 to 102, 123 to 129, 146 to 152):
  \<^verbatim>\<open>for selector in selectors: try: field = driver.find_element(*selector); break
  except: continue\<close>. The result is the element found, or \<^verbatim>\<open>None\<close>.
\<close>

primrec try_selectors :: "'w env \<Rightarrow> selector list \<Rightarrow> (element option, 'r, 'w) prog" where
  "try_selectors env [] = proceed None"
| "try_selectors env (selector # rest) =
     try_except
       (andthen (driver_find_element env selector) (\<lambda>field. proceed (Some field)))
       (\<lambda>e. try_selectors env rest)"

definition username_selectors :: "selector list" where
  "username_selectors =
     [(NAME, ''UserName''), (NAME, ''username''), (ID, ''UserName''), (ID, ''username''),
      (NAME, ''txtUserName''), (ID, ''txtUserName'')]"

definition password_selectors :: "selector list" where
  "password_selectors =
     [(NAME, ''Password''), (NAME, ''password''), (ID, ''Password''), (ID, ''password''),
      (NAME, ''txtPassword''), (ID, ''txtPassword'')]"

definition login_button_selectors :: "selector list" where
  "login_button_selectors =
     [(NAME, ''btnLogin''), (ID, ''btnLogin''), (CSS_SELECTOR, ''button[type='submit']'')]"

text \<open>
  Lines 104 to 111 and 131 to 137: \<^verbatim>\<open>if not field: try: field =
  driver.find_element(By.CSS_SELECTOR, css) except: return False\<close>.
\<close>

definition css_fallback :: "'w env \<Rightarrow> string \<Rightarrow> element option \<Rightarrow> (element, bool, 'w) prog" where
  "css_fallback env css found =
     (case found of
        Some field \<Rightarrow> proceed field
      | None \<Rightarrow> try_except (driver_find_element env (CSS_SELECTOR, css)) (\<lambda>e. ret False))"

definition find_username_field :: "'w env \<Rightarrow> (element, bool, 'w) prog" where
  "find_username_field env =
     andthen (try_selectors env username_selectors) (css_fallback env ''input[type='text']'')"

definition find_password_field :: "'w env \<Rightarrow> (element, bool, 'w) prog" where
  "find_password_field env =
     andthen (try_selectors env password_selectors) (css_fallback env ''input[type='password']'')"

definition find_login_button :: "'w env \<Rightarrow> (element, bool, 'w) prog" where
  "find_login_button env =
     andthen (try_selectors env login_button_selectors) (\<lambda>found.
       case found of Some login_button \<Rightarrow> proceed login_button | None \<Rightarrow> ret False)"

text \<open>Lines 55 to 168: everything up to and including the click on the login button.\<close>

definition login_until_click :: "'w env \<Rightarrow> (unit, bool, 'w) prog" where
  "login_until_click env =
     andthen (driver_get env COCORAHS_LOGIN_URL) (\<lambda>u.
     andthen (time_sleep env 2) (\<lambda>u.
     andthen (driver_find_elements env (TAG_NAME, ''input'')) (\<lambda>all_inputs.
     andthen (log_login_inputs env all_inputs) (\<lambda>u.
     andthen (driver_find_elements env (TAG_NAME, ''button'')) (\<lambda>all_buttons.
     andthen (log_login_buttons env all_buttons) (\<lambda>u.
     andthen (driver_find_elements env (TAG_NAME, ''form'')) (\<lambda>all_forms.
     andthen (find_username_field env) (\<lambda>username_field.
     andthen (find_password_field env) (\<lambda>password_field.
     andthen (find_login_button env) (\<lambda>login_button.
     andthen (elem_clear env username_field) (\<lambda>u.
     andthen (elem_send_keys env username_field COCORAHS_USERNAME) (\<lambda>u.
     andthen (elem_clear env password_field) (\<lambda>u.
     andthen (elem_send_keys env password_field COCORAHS_PASSWORD) (\<lambda>u.
     elem_click env login_button))))))))))))))"

text \<open>
  Lines 171 to 180: the wait, the log line that reads title and URL, and the test
  \<^verbatim>\<open>"Login" in driver.title or "login" in driver.current_url.lower()\<close>, whose second
  operand is read only when the first is false.
\<close>

definition login_after_click :: "'w env \<Rightarrow> (unit, bool, 'w) prog" where
  "login_after_click env =
     andthen (time_sleep env 4) (\<lambda>u.
     andthen (driver_title env) (\<lambda>logged_title.
     andthen (driver_current_url env) (\<lambda>logged_url.
     andthen (driver_title env) (\<lambda>t.
       if py_in ''Login'' t then ret False
       else andthen (driver_current_url env) (\<lambda>url.
              if py_in ''login'' (lower url) then ret False else ret True)))))"

definition login_to_cocorahs :: "'w env \<Rightarrow> 'w driver \<Rightarrow> (exn + bool) \<times> 'w driver" where
  "login_to_cocorahs env =
     stage (andthen (login_until_click env) (\<lambda>u. login_after_click env))"

section \<open>Navigation stage: \<^verbatim>\<open>navigate_to_precip_form\<close>\<close>

definition navigate_to_precip_form :: "'w env \<Rightarrow> 'w driver \<Rightarrow> (exn + bool) \<times> 'w driver" where
  "navigate_to_precip_form env =
     stage
       (andthen (driver_current_url env) (\<lambda>url.
        andthen (if \<not> py_in ''DailyPrecipReport'' url
                 then driver_get env COCORAHS_SUBMIT_URL else proceed ()) (\<lambda>u.
        andthen (time_sleep env 3) (\<lambda>u.
        andthen (try_except
                   (andthen (driver_find_elements env (TAG_NAME, ''input'')) (\<lambda>inputs.
                    andthen (driver_find_elements env (TAG_NAME, ''select'')) (\<lambda>selects.
                    proceed ())))
                   (\<lambda>e. proceed ())) (\<lambda>u.
        ret True)))))"

section \<open>Station selection: \<^verbatim>\<open>select_station\<close>\<close>

definition select_station :: "'w driver \<Rightarrow> (exn + bool) \<times> 'w driver" where
  "select_station d = (Inr True, d)"

section \<open>Field mapping and fill stage: \<^verbatim>\<open>fill_form_fields\<close>\<close>

text \<open>
  Lines 247 to 253: the type of every input is read, and for the inputs that are not
  hidden, submit, checkbox or button also the id, the name and the placeholder.
\<close>

primrec log_form_inputs :: "'w env \<Rightarrow> element list \<Rightarrow> (unit, 'r, 'w) prog" where
  "log_form_inputs env [] = proceed ()"
| "log_form_inputs env (inp # rest) =
     andthen (elem_get_attribute env inp ''type'') (\<lambda>inp_type.
     andthen (if inp_type \<notin> set [Some ''hidden'', Some ''submit'', Some ''checkbox'', Some ''button'']
              then andthen (elem_get_attribute env inp ''id'') (\<lambda>inp_id.
                   andthen (elem_get_attribute env inp ''name'') (\<lambda>inp_name.
                   andthen (elem_get_attribute env inp ''placeholder'') (\<lambda>inp_placeholder.
                   proceed ())))
              else proceed ()) (\<lambda>u.
     log_form_inputs env rest))"

text \<open>
  Line 256: \<^verbatim>\<open>datetime.fromisoformat(form_data['reportDate'])\<close>. A missing key raises
  \<^verbatim>\<open>KeyError\<close>, a value that is not a string \<^verbatim>\<open>TypeError\<close>, and the parser raises
  \<^verbatim>\<open>ValueError\<close> on a string it does not accept.
\<close>

definition parse_report_date :: "'w env \<Rightarrow> form_data \<Rightarrow> exn + datetime" where
  "parse_report_date env form_data =
     (case form_data ''reportDate'' of
        None \<Rightarrow> Inl (KeyError ''reportDate'')
      | Some (JStr s) \<Rightarrow> fromisoformat env s
      | Some v \<Rightarrow> Inl (TypeError ''fromisoformat: argument must be str''))"

text \<open>
  Lines 257 to 272: the dictionary \<^verbatim>\<open>fields_to_fill\<close>, in insertion order; an entry is
  (field name, element id, value).
\<close>

type_synonym mapping_entry = "string \<times> string \<times> string"

definition fields_to_fill :: "datetime \<Rightarrow> form_data \<Rightarrow> mapping_entry list" where
  "fields_to_fill report_datetime form_data =
     (let month_s = zfill 2 (str_nat (month report_datetime));
          day_s = zfill 2 (str_nat (day report_datetime));
          year_s = str_nat (year report_datetime);
          hour_s = zfill 2 (str_nat (hour report_datetime));
          minute_s = zfill 2 (str_nat (minute report_datetime))
      in [(''date'', ''frmReport_dcObsDate_di'', month_s @ ''/'' @ day_s @ ''/'' @ year_s),
          (''time'', ''frmReport_tObsTime_txtTime'', hour_s @ '':'' @ minute_s),
          (''gaugeCatch'', ''frmReport_prTotalPrecip__ctl1_tbPrecip'',
             get_str form_data ''gaugeCatch''),
          (''snowfallAmount'', ''frmReport_prNewSnowAmount__ctl1_tbPrecip'',
             get_str form_data ''snowfallAmount''),
          (''snowfallSWE'', ''frmReport_prSnowCore__ctl1_tbPrecip'',
             get_str form_data ''snowfallSWE''),
          (''snowpackDepth'', ''frmReport_prTotalSnowDepth__ctl1_tbPrecip'',
             get_str form_data ''snowpackDepth''),
          (''snowpackSWE'', ''frmReport_prSWE__ctl1_tbPrecip'',
             get_str form_data ''snowpackSWE'')])"

text \<open>Line 276: \<^verbatim>\<open>if field_value and field_value.strip()\<close>.\<close>

definition populated :: "string \<Rightarrow> bool" where
  "populated field_value = (field_value \<noteq> [] \<and> strip field_value \<noteq> [])"

text \<open>Lines 277 to 283: one field is located by id, cleared and written; whatever is
  raised there is logged and dropped.\<close>

definition fill_one :: "'w env \<Rightarrow> mapping_entry \<Rightarrow> (unit, 'r, 'w) prog" where
  "fill_one env entry =
     (case entry of
        (field_name, field_id, field_value) \<Rightarrow>
          if populated field_value
          then try_except
                 (andthen (driver_find_element env (ID, field_id)) (\<lambda>field.
                  andthen (elem_clear env field) (\<lambda>u.
                  elem_send_keys env field field_value)))
                 (\<lambda>e. proceed ())
          else proceed ())"

primrec fill_each :: "'w env \<Rightarrow> mapping_entry list \<Rightarrow> (unit, 'r, 'w) prog" where
  "fill_each env [] = proceed ()"
| "fill_each env (entry # rest) = andthen (fill_one env entry) (\<lambda>u. fill_each env rest)"

text \<open>Lines 286 to 293: the notes.\<close>

definition fill_notes :: "'w env \<Rightarrow> form_data \<Rightarrow> (unit, 'r, 'w) prog" where
  "fill_notes env form_data =
     (if get_truthy form_data ''additionalNotes''
      then try_except
             (andthen (driver_find_element env (ID, ''frmReport_txtNotes'')) (\<lambda>notes_field.
              andthen (elem_clear env notes_field) (\<lambda>u.
              elem_send_keys env notes_field (get_str form_data ''additionalNotes''))))
             (\<lambda>e. proceed ())
      else proceed ())"

text \<open>Lines 234 to 272: the stage up to the mapping, which is its result.\<close>

definition fill_prepare :: "'w env \<Rightarrow> form_data \<Rightarrow> (mapping_entry list, 'r, 'w) prog" where
  "fill_prepare env form_data =
     andthen (time_sleep env 2) (\<lambda>u.
     andthen (driver_find_elements env (TAG_NAME, ''input'')) (\<lambda>inputs.
     andthen (driver_find_elements env (TAG_NAME, ''select'')) (\<lambda>selects.
     andthen (driver_find_elements env (TAG_NAME, ''textarea'')) (\<lambda>textareas.
     andthen (log_form_inputs env inputs) (\<lambda>u.
     andthen (lift (parse_report_date env form_data)) (\<lambda>report_datetime.
     proceed (fields_to_fill report_datetime form_data)))))))"

definition fill_form_fields :: "'w env \<Rightarrow> form_data \<Rightarrow> 'w driver \<Rightarrow> (exn + bool) \<times> 'w driver" where
  "fill_form_fields env form_data =
     stage
       (andthen (fill_prepare env form_data) (\<lambda>mapping.
        andthen (fill_each env mapping) (\<lambda>u.
        andthen (fill_notes env form_data) (\<lambda>u.
        ret True))))"

section \<open>Submission stage: \<^verbatim>\<open>submit_form\<close>\<close>

text \<open>Lines 321 to 331: the first button whose type is submit or whose text contains
  "submit" in any case.\<close>

primrec scan_buttons :: "'w env \<Rightarrow> element list \<Rightarrow> (element option, 'r, 'w) prog" where
  "scan_buttons env [] = proceed None"
| "scan_buttons env (btn # rest) =
     andthen (elem_text env btn) (\<lambda>raw_text.
     andthen (elem_get_attribute env btn ''type'') (\<lambda>btn_type.
     andthen (elem_get_attribute env btn ''id'') (\<lambda>btn_id.
     andthen (elem_get_attribute env btn ''name'') (\<lambda>btn_name.
       if btn_type = Some ''submit'' \<or> py_in ''submit'' (lower (strip raw_text))
       then proceed (Some btn)
       else scan_buttons env rest))))"

text \<open>Lines 335 to 342: the first input whose type is submit.\<close>

primrec scan_inputs :: "'w env \<Rightarrow> element list \<Rightarrow> (element option, 'r, 'w) prog" where
  "scan_inputs env [] = proceed None"
| "scan_inputs env (inp # rest) =
     andthen (elem_get_attribute env inp ''type'') (\<lambda>inp_type.
       if inp_type = Some ''submit''
       then andthen (elem_get_attribute env inp ''id'') (\<lambda>inp_id.
            andthen (elem_get_attribute env inp ''value'') (\<lambda>inp_value.
            proceed (Some inp)))
       else scan_inputs env rest)"

text \<open>Lines 308 to 349: everything up to and including the click on the submit control.\<close>

definition submit_until_click :: "'w env \<Rightarrow> (unit, bool, 'w) prog" where
  "submit_until_click env =
     andthen (time_sleep env 2) (\<lambda>u.
     andthen (driver_find_elements env (TAG_NAME, ''button'')) (\<lambda>all_buttons.
     andthen (driver_find_elements env (TAG_NAME, ''input'')) (\<lambda>all_inputs.
     andthen (scan_buttons env all_buttons) (\<lambda>from_buttons.
     andthen (case from_buttons of
                Some btn \<Rightarrow> proceed (Some btn)
              | None \<Rightarrow> scan_inputs env all_inputs) (\<lambda>submit_button.
       case submit_button of
         None \<Rightarrow> ret False
       | Some button \<Rightarrow> elem_click env button)))))"

text \<open>Line 375: \<^verbatim>\<open>[e.text for e in error_messages]\<close>.\<close>

primrec read_texts :: "'w env \<Rightarrow> element list \<Rightarrow> (string list, 'r, 'w) prog" where
  "read_texts env [] = proceed []"
| "read_texts env (e # rest) =
     andthen (elem_text env e) (\<lambda>t.
     andthen (read_texts env rest) (\<lambda>ts.
     proceed (t # ts)))"

text \<open>Lines 357 to 364: a success message on the page ends the stage with success; an
  exception of the lookup is dropped.\<close>

definition success_check :: "'w env \<Rightarrow> (unit, bool, 'w) prog" where
  "success_check env =
     try_except
       (andthen (driver_find_elements env (CLASS_NAME, ''successmessage'')) (\<lambda>success_elements.
          if success_elements \<noteq> [] then ret True else proceed ()))
       (\<lambda>e. proceed ())"

text \<open>Lines 372 to 378: an error message on the page ends the stage with failure, after
  the texts of the messages were read for the log; an exception of the lookup or of a
  read is dropped.\<close>

definition error_check :: "'w env \<Rightarrow> (unit, bool, 'w) prog" where
  "error_check env =
     try_except
       (andthen (driver_find_elements env (CLASS_NAME, ''errormessage'')) (\<lambda>error_messages.
          if error_messages \<noteq> []
          then andthen (read_texts env error_messages) (\<lambda>texts. ret False)
          else proceed ()))
       (\<lambda>e. proceed ())"

text \<open>
  Lines 352 to 381: the wait, the log line that reads title and URL, and the
  classification of the page the click led to.
\<close>

definition submit_after_click :: "'w env \<Rightarrow> (unit, bool, 'w) prog" where
  "submit_after_click env =
     andthen (time_sleep env 3) (\<lambda>u.
     andthen (driver_title env) (\<lambda>logged_title.
     andthen (driver_current_url env) (\<lambda>logged_url.
     andthen (success_check env) (\<lambda>u.
     andthen (driver_current_url env) (\<lambda>url.
       if \<not> py_in ''DailyPrecipReport'' url then ret True
       else andthen (error_check env) (\<lambda>u. ret True))))))"

definition submit_form :: "'w env \<Rightarrow> 'w driver \<Rightarrow> (exn + bool) \<times> 'w driver" where
  "submit_form env =
     stage (andthen (submit_until_click env) (\<lambda>u. submit_after_click env))"

section \<open>The endpoint: \<^verbatim>\<open>submit_cocorahs\<close>\<close>

record response =
  success :: bool
  message :: string
  status :: nat

definition failure :: "string \<Rightarrow> nat \<Rightarrow> response" where
  "failure msg code = \<lparr>success = False, message = msg, status = code\<rparr>"

definition setup_driver :: "'w env \<Rightarrow> exn + 'w driver" where
  "setup_driver env =
     (case chrome env of
        Inl e \<Rightarrow> Inl e
      | Inr w \<Rightarrow> Inr \<lparr>world = w, calls = []\<rparr>)"

text \<open>
  Lines 410 to 449, the body of the inner \<^verbatim>\<open>try\<close>, for the five stage functions it
  calls: each is called only when the one before returned a true value; an exception
  that a call lets through leaves the block.
\<close>

definition run_stages ::
  "('s \<Rightarrow> (exn + bool) \<times> 's) \<Rightarrow> ('s \<Rightarrow> (exn + bool) \<times> 's) \<Rightarrow> ('s \<Rightarrow> (exn + bool) \<times> 's) \<Rightarrow>
   ('s \<Rightarrow> (exn + bool) \<times> 's) \<Rightarrow> ('s \<Rightarrow> (exn + bool) \<times> 's) \<Rightarrow> 's \<Rightarrow> (exn + response) \<times> 's" where
  "run_stages login navigate select fill submit d0 =
     (case login d0 of
        (Inl e, d1) \<Rightarrow> (Inl e, d1)
      | (Inr logged_in, d1) \<Rightarrow>
          if \<not> logged_in then (Inr (failure ''Failed to log in to CoCoRaHS'' 401), d1)
          else (case navigate d1 of
             (Inl e, d2) \<Rightarrow> (Inl e, d2)
           | (Inr navigated, d2) \<Rightarrow>
               if \<not> navigated
               then (Inr (failure ''Failed to navigate to precipitation report form'' 400), d2)
               else (case select d2 of
                  (Inl e, d3) \<Rightarrow> (Inl e, d3)
                | (Inr selected, d3) \<Rightarrow>
                    if \<not> selected
                    then (Inr (failure (''Failed to select station '' @ COCORAHS_STATION) 400), d3)
                    else (case fill d3 of
                       (Inl e, d4) \<Rightarrow> (Inl e, d4)
                     | (Inr filled, d4) \<Rightarrow>
                         if \<not> filled then (Inr (failure ''Failed to fill form fields'' 400), d4)
                         else (case submit d4 of
                            (Inl e, d5) \<Rightarrow> (Inl e, d5)
                          | (Inr submitted, d5) \<Rightarrow>
                              if \<not> submitted
                              then (Inr (failure ''Failed to submit form to CoCoRaHS'' 400), d5)
                              else (Inr \<lparr>success = True,
                                         message = ''Report successfully submitted to CoCoRaHS for station VT-CL-14'',
                                         status = 200\<rparr>, d5))))))"

text \<open>Lines 409 to 453: \<^verbatim>\<open>try: ... finally: driver.quit()\<close>.\<close>

definition with_quit ::
  "('w driver \<Rightarrow> (exn + response) \<times> 'w driver) \<Rightarrow> 'w driver \<Rightarrow> (exn + response) \<times> 'w driver" where
  "with_quit block d = (case block d of (r, d') \<Rightarrow> (r, driver_quit d'))"

text \<open>
  Lines 393 to 460. The result is the response and the driver, when one was created, in
  the state the request leaves it in. The outer \<^verbatim>\<open>except Exception\<close> turns whatever
  is raised into the 500 response.
\<close>

definition server_error :: "exn \<Rightarrow> response" where
  "server_error e = failure (''Server error: '' @ str_exn e) 500"

definition submit_cocorahs :: "'w env \<Rightarrow> form_data \<Rightarrow> response \<times> 'w driver option" where
  "submit_cocorahs env form_data =
     (if \<not> get_truthy form_data ''reportDate''
      then (failure ''Report date is required'' 400, None)
      else (case setup_driver env of
              Inl e \<Rightarrow> (server_error e, None)
            | Inr driver \<Rightarrow>
                (case with_quit
                        (run_stages (login_to_cocorahs env) (navigate_to_precip_form env)
                           select_station (fill_form_fields env form_data) (submit_form env))
                        driver of
                   (Inl e, d') \<Rightarrow> (server_error e, Some d')
                 | (Inr resp, d') \<Rightarrow> (resp, Some d'))))"

section \<open>Observations the statements use\<close>

text \<open>The page the program sees after it has slept for the given number of seconds.\<close>

definition page_after :: "'w env \<Rightarrow> nat \<Rightarrow> 'w driver \<Rightarrow> page" where
  "page_after env seconds d = observe env (elapse env seconds (world d))"

text \<open>An element matching the selector is present: \<^verbatim>\<open>find_elements\<close> returns a list that
  is not empty.\<close>

definition elements_present :: "page \<Rightarrow> selector \<Rightarrow> bool" where
  "elements_present p sel = (case find_elements p sel of Inr (x # xs) \<Rightarrow> True | _ \<Rightarrow> False)"

text \<open>The text of every element matching the selector can be read.\<close>

definition texts_readable :: "page \<Rightarrow> selector \<Rightarrow> bool" where
  "texts_readable p sel =
     (case find_elements p sel of
        Inr es \<Rightarrow> list_all (\<lambda>e. case text_of p e of Inr s \<Rightarrow> True | Inl x \<Rightarrow> False) es
      | Inl x \<Rightarrow> True)"

section \<open>A sample site\<close>

text \<open>
  A small site to run the program on. State 0 shows the login page, state 1 the report
  form, and any other state the page the submission leads to. On the login page the
  first user-name strategy finds nothing and the second finds element 1; the form has no
  element for the gauge catch, it rejects what is typed into the time field, and its
  notes field is element 14.
\<close>

definition no_element :: "exn + 'a" where
  "no_element = Inl (NoSuchElementException ''no such element'')"

definition sample_login_page :: page where
  "sample_login_page =
     \<lparr>title = Inr ''CoCoRaHS Login'',
      current_url = Inr ''https://www.cocorahs.org/Login.aspx'',
      find_element = (\<lambda>sel.
         if sel = (NAME, ''username'') then Inr 1
         else if sel = (ID, ''Password'') then Inr 2
         else if sel = (NAME, ''btnLogin'') then Inr 3
         else no_element),
      find_elements = (\<lambda>sel.
         if sel = (TAG_NAME, ''input'') then Inr [1, 2, 3]
         else if sel = (TAG_NAME, ''form'') then Inr [4]
         else Inr []),
      get_attribute = (\<lambda>el name. Inr None),
      text_of = (\<lambda>el. Inr [])\<rparr>"

definition sample_form_page :: page where
  "sample_form_page =
     \<lparr>title = Inr ''Daily Precipitation Report'',
      current_url = Inr ''https://www.cocorahs.org/Admin/MyDataEntry/DailyPrecipReport.aspx'',
      find_element = (\<lambda>sel.
         if sel = (ID, ''frmReport_dcObsDate_di'') then Inr 10
         else if sel = (ID, ''frmReport_tObsTime_txtTime'') then Inr 11
         else if sel = (ID, ''frmReport_prNewSnowAmount__ctl1_tbPrecip'') then Inr 12
         else if sel = (ID, ''frmReport_txtNotes'') then Inr 14
         else no_element),
      find_elements = (\<lambda>sel.
         if sel = (TAG_NAME, ''input'') then Inr [10, 11, 12, 13]
         else Inr []),
      get_attribute = (\<lambda>el name.
         if el = 13 \<and> name = ''type'' then Inr (Some ''submit'') else Inr None),
      text_of = (\<lambda>el. Inr [])\<rparr>"

text \<open>After the submission: the form's own address, with a success message (element 20)
  and an error message (element 21).\<close>

definition sample_both_page :: page where
  "sample_both_page =
     \<lparr>title = Inr ''Daily Precipitation Report'',
      current_url = Inr ''https://www.cocorahs.org/Admin/MyDataEntry/DailyPrecipReport.aspx'',
      find_element = (\<lambda>sel. no_element),
      find_elements = (\<lambda>sel.
         if sel = (CLASS_NAME, ''successmessage'') then Inr [20]
         else if sel = (CLASS_NAME, ''errormessage'') then Inr [21]
         else Inr []),
      get_attribute = (\<lambda>el name. Inr None),
      text_of = (\<lambda>el. Inr ''Report saved with warnings'')\<rparr>"

text \<open>After the submission: the form's own address with an error message only.\<close>

definition sample_rejected_page :: page where
  "sample_rejected_page =
     \<lparr>title = Inr ''Daily Precipitation Report'',
      current_url = Inr ''https://www.cocorahs.org/Admin/MyDataEntry/DailyPrecipReport.aspx'',
      find_element = (\<lambda>sel. no_element),
      find_elements = (\<lambda>sel.
         if sel = (CLASS_NAME, ''errormessage'') then Inr [21] else Inr []),
      get_attribute = (\<lambda>el name. Inr None),
      text_of = (\<lambda>el. Inr ''A report for this date exists'')\<rparr>"

definition sample_parse :: "string \<Rightarrow> exn + datetime" where
  "sample_parse s =
     (if s = ''2024-01-05T07:30''
      then Inr \<lparr>year = 2024, month = 1, day = 5, hour = 7, minute = 30\<rparr>
      else Inl (ValueError (''Invalid isoformat string: '' @ s)))"

text \<open>The site accepts the login or not, and shows the given page after a submission.\<close>

definition sample_env :: "bool \<Rightarrow> page \<Rightarrow> nat env" where
  "sample_env accepts result_page =
     \<lparr>observe = (\<lambda>w. if w = 0 then sample_login_page
                      else if w = 1 then sample_form_page else result_page),
      react = (\<lambda>a w.
         case a of
           Click el \<Rightarrow>
             (None, if el = 3 \<and> w = 0 then (if accepts then 1 else 0)
                    else if el = 13 \<and> w = 1 then 2 else w)
         | SendKeys el keys \<Rightarrow>
             (if el = 11 then Some (WebDriverException ''element not interactable'') else None, w)
         | Get url \<Rightarrow> (None, w)
         | Clear el \<Rightarrow> (None, w)),
      elapse = (\<lambda>seconds w. w),
      chrome = Inr 0,
      fromisoformat = sample_parse\<rparr>"

definition sample_report :: form_data where
  "sample_report =
     [''reportDate'' \<mapsto> JStr ''2024-01-05T07:30'', ''gaugeCatch'' \<mapsto> JStr ''0.25'',
      ''snowfallAmount'' \<mapsto> JInt 2]"

definition noted_report :: form_data where
  "noted_report =
     [''reportDate'' \<mapsto> JStr ''2024-01-05T07:30'', ''gaugeCatch'' \<mapsto> JStr ''0.25'',
      ''snowfallAmount'' \<mapsto> JInt 2, ''additionalNotes'' \<mapsto> JStr ''windy'']"

text \<open>A site on which Chrome does not start.\<close>

definition no_chrome_env :: "nat env" where
  "no_chrome_env =
     (sample_env True sample_both_page)
       \<lparr>chrome := Inl (WebDriverException ''chrome not reachable'')\<rparr>"

definition bare_report :: form_data where
  "bare_report = [''reportDate'' \<mapsto> JStr ''2024-01-05T07:30'']"

definition undated_report :: form_data where
  "undated_report = [''reportDate'' \<mapsto> JStr ''yesterday'', ''gaugeCatch'' \<mapsto> JStr ''0.25'']"

section \<open>Properties of the field mapping\<close>

lemma in_dropWhile: "c \<in> set s \<Longrightarrow> \<not> P c \<Longrightarrow> c \<in> set (dropWhile P s)"
  by (induction s) auto

lemma strip_nonempty:
  assumes c: "c \<in> set s" and n: "\<not> is_space c"
  shows "strip s \<noteq> []"
proof -
  have "c \<in> set (dropWhile is_space s)"
    using c n by (rule in_dropWhile)
  then have "c \<in> set (rev (dropWhile is_space s))"
    by simp
  then have "c \<in> set (dropWhile is_space (rev (dropWhile is_space s)))"
    using n by (rule in_dropWhile)
  then have "dropWhile is_space (rev (dropWhile is_space s)) \<noteq> []"
    by (cases "dropWhile is_space (rev (dropWhile is_space s))") (simp_all del: dropWhile_eq_Nil_conv)
  then show ?thesis
    unfolding strip_def by (simp only: rev_is_Nil_conv not_False_eq_True)
qed

lemma populated_if: "c \<in> set s \<Longrightarrow> \<not> is_space c \<Longrightarrow> populated s"
  unfolding populated_def using strip_nonempty by fastforce

lemma slash_no_space: "\<not> is_space CHR ''/''"
  by (simp add: is_space_def whitespace_def)

lemma colon_no_space: "\<not> is_space CHR '':''"
  by (simp add: is_space_def whitespace_def)

lemma not_populated_empty: "\<not> populated []"
  by (simp add: populated_def)

lemma zfill_digit:
  assumes "1 \<le> n \<and> n \<le> (9::nat)"
  shows "zfill 2 (str_nat n) = [CHR ''0'', digit_char n] \<and> digit_char n \<in> set ''123456789''"
proof -
  have "n \<in> {1, 2, 3, 4, 5, 6, 7, 8, 9}"
    using assms by auto
  then show ?thesis
    by (auto simp: zfill_def str_nat.simps digit_char_def)
qed

text \<open>
  C6: the timestamp 2024-01-05T07:30 (year 2024, month 1, day 5, hour 7, minute 30) is
  rendered as the date string 01/05/2024 and the time string 07:30. For every timestamp
  the date entry is the padded month, a slash, the padded day, a slash and the year, and
  the time entry is the padded hour, a colon and the padded minute, where padding turns
  each value from 1 to 9 into two characters: a zero and the value's digit.
\<close>

theorem timestamp_rendering:
  "map_of (fields_to_fill \<lparr>year = 2024, month = 1, day = 5, hour = 7, minute = 30\<rparr> form_data) ''date''
     = Some (''frmReport_dcObsDate_di'', ''01/05/2024'')
   \<and> map_of (fields_to_fill \<lparr>year = 2024, month = 1, day = 5, hour = 7, minute = 30\<rparr> form_data) ''time''
     = Some (''frmReport_tObsTime_txtTime'', ''07:30'')
   \<and> map_of (fields_to_fill dt form_data) ''date''
     = Some (''frmReport_dcObsDate_di'',
             zfill 2 (str_nat (month dt)) @ ''/'' @ zfill 2 (str_nat (day dt)) @ ''/'' @ str_nat (year dt))
   \<and> map_of (fields_to_fill dt form_data) ''time''
     = Some (''frmReport_tObsTime_txtTime'',
             zfill 2 (str_nat (hour dt)) @ '':'' @ zfill 2 (str_nat (minute dt)))
   \<and> (1 \<le> n \<and> n \<le> 9 \<longrightarrow>
        zfill 2 (str_nat n) = [CHR ''0'', digit_char n] \<and> digit_char n \<in> set ''123456789'')"
proof -
  have sample:
    "map_of (fields_to_fill \<lparr>year = 2024, month = 1, day = 5, hour = 7, minute = 30\<rparr> form_data) ''date''
       = Some (''frmReport_dcObsDate_di'', ''01/05/2024'')
     \<and> map_of (fields_to_fill \<lparr>year = 2024, month = 1, day = 5, hour = 7, minute = 30\<rparr> form_data) ''time''
       = Some (''frmReport_tObsTime_txtTime'', ''07:30'')"
    by (simp add: fields_to_fill_def Let_def zfill_def str_nat.simps digit_char_def)
  have shape:
    "map_of (fields_to_fill dt form_data) ''date''
       = Some (''frmReport_dcObsDate_di'',
               zfill 2 (str_nat (month dt)) @ ''/'' @ zfill 2 (str_nat (day dt)) @ ''/'' @ str_nat (year dt))
     \<and> map_of (fields_to_fill dt form_data) ''time''
       = Some (''frmReport_tObsTime_txtTime'',
               zfill 2 (str_nat (hour dt)) @ '':'' @ zfill 2 (str_nat (minute dt)))"
    by (simp add: fields_to_fill_def Let_def)
  show ?thesis
    using sample shape zfill_digit [of n] by blast
qed

theorem timestamp_rendering_witness:
  "zfill 2 (str_nat 7) = ''07'' \<and> zfill 2 (str_nat 9) = ''09'' \<and> zfill 2 (str_nat 1) = ''01''"
  using timestamp_rendering [where n = 7] timestamp_rendering [where n = 9]
    timestamp_rendering [where n = 1]
  by (simp add: digit_char_def)

section \<open>Running the model\<close>

text \<open>The defining equations, for evaluating the program on the sample site.\<close>

lemmas model_defs =
  proceed_def ret_def andthen_def try_except_def lift_def query_def perform_def
  driver_get_def driver_title_def driver_current_url_def driver_find_element_def
  driver_find_elements_def elem_get_attribute_def elem_text_def elem_clear_def
  elem_send_keys_def elem_click_def time_sleep_def driver_quit_def stage_def
  css_fallback_def find_username_field_def find_password_field_def find_login_button_def
  username_selectors_def password_selectors_def login_button_selectors_def
  login_until_click_def login_after_click_def login_to_cocorahs_def
  navigate_to_precip_form_def select_station_def parse_report_date_def fields_to_fill_def
  populated_def fill_one_def fill_notes_def fill_prepare_def fill_form_fields_def
  submit_until_click_def success_check_def error_check_def submit_after_click_def
  submit_form_def failure_def setup_driver_def run_stages_def with_quit_def server_error_def
  submit_cocorahs_def COCORAHS_USERNAME_def COCORAHS_PASSWORD_def COCORAHS_STATION_def
  COCORAHS_LOGIN_URL_def COCORAHS_SUBMIT_URL_def get_truthy_def get_str_def lower_def
  char_lower_def upper_latin1_def lower_latin1_def strip_def is_space_def whitespace_def
  zfill_def str_nat.simps str_int_def
  digit_char_def page_after_def elements_present_def texts_readable_def

lemmas sample_defs =
  no_element_def sample_login_page_def sample_form_page_def sample_both_page_def
  sample_rejected_page_def sample_parse_def sample_env_def sample_report_def
  noted_report_def no_chrome_env_def bare_report_def undated_report_def

lemma strip_Nil: "strip [] = []"
  by (simp add: strip_def)

lemma strip_slash: "strip (a @ CHR ''/'' # b) \<noteq> []"
  by (rule strip_nonempty [of "CHR ''/''"]) (simp_all add: slash_no_space)

lemma strip_colon: "strip (a @ CHR '':'' # b) \<noteq> []"
  by (rule strip_nonempty [of "CHR '':''"]) (simp_all add: colon_no_space)

text \<open>
  C5: for every report whose timestamp is set (it parses to \<open>report_datetime\<close>) and
  whose optional attributes (gauge catch, snowfall amount, snowfall SWE, snowpack depth,
  snowpack SWE, notes) are all absent, the mapping has seven entries of which exactly two,
  date and time, have a value that is not empty after trimming (and pass the test of the
  fill loop), every optional entry has the empty value, and the notes step does nothing.
\<close>

theorem bare_report_mapping:
  assumes "parse_report_date env form_data = Inr report_datetime"
    and "form_data ''gaugeCatch'' = None"
    and "form_data ''snowfallAmount'' = None"
    and "form_data ''snowfallSWE'' = None"
    and "form_data ''snowpackDepth'' = None"
    and "form_data ''snowpackSWE'' = None"
    and "form_data ''additionalNotes'' = None"
  shows "map fst (filter (\<lambda>(name, field_id, v). strip v \<noteq> [])
                    (fields_to_fill report_datetime form_data)) = [''date'', ''time'']
       \<and> map fst (filter (\<lambda>(name, field_id, v). populated v)
                    (fields_to_fill report_datetime form_data)) = [''date'', ''time'']
       \<and> map (\<lambda>(name, field_id, v). (name, v)) (drop 2 (fields_to_fill report_datetime form_data))
           = [(''gaugeCatch'', []), (''snowfallAmount'', []), (''snowfallSWE'', []),
              (''snowpackDepth'', []), (''snowpackSWE'', [])]
       \<and> length (fields_to_fill report_datetime form_data) = 7
       \<and> fill_notes env form_data d = (Next (), d)"
  using assms(2-7)
  by (simp add: fields_to_fill_def Let_def get_str_def get_truthy_def populated_def
      strip_Nil strip_slash strip_colon fill_notes_def proceed_def)

theorem bare_report_mapping_witness:
  "map fst (filter (\<lambda>(name, field_id, v). strip v \<noteq> [])
      (fields_to_fill \<lparr>year = 2024, month = 1, day = 5, hour = 7, minute = 30\<rparr> bare_report))
     = [''date'', ''time'']
   \<and> map fst (filter (\<lambda>(name, field_id, v). populated v)
      (fields_to_fill \<lparr>year = 2024, month = 1, day = 5, hour = 7, minute = 30\<rparr> bare_report))
     = [''date'', ''time'']
   \<and> map (\<lambda>(name, field_id, v). (name, v))
      (drop 2 (fields_to_fill \<lparr>year = 2024, month = 1, day = 5, hour = 7, minute = 30\<rparr> bare_report))
     = [(''gaugeCatch'', []), (''snowfallAmount'', []), (''snowfallSWE'', []),
        (''snowpackDepth'', []), (''snowpackSWE'', [])]
   \<and> length (fields_to_fill \<lparr>year = 2024, month = 1, day = 5, hour = 7, minute = 30\<rparr> bare_report) = 7
   \<and> fill_notes (sample_env True sample_both_page) bare_report \<lparr>world = 1, calls = []\<rparr>
        = (Next (), \<lparr>world = 1, calls = []\<rparr>)"
proof (rule bare_report_mapping)
  show "parse_report_date (sample_env True sample_both_page) bare_report
          = Inr \<lparr>year = 2024, month = 1, day = 5, hour = 7, minute = 30\<rparr>"
    by (simp add: parse_report_date_def sample_env_def sample_parse_def bare_report_def)
qed (simp_all add: bare_report_def)

section \<open>Properties of the orchestrator\<close>

lemma run_stages_select_station:
  "fst (run_stages login navigate select_station fill submit d)
     \<noteq> Inr (failure (''Failed to select station '' @ COCORAHS_STATION) 400)"
  by (simp add: run_stages_def select_station_def failure_def COCORAHS_STATION_def
      split: prod.splits sum.splits)

text \<open>
  C9: station selection returns success on every driver and leaves it as it is, so the
  pipeline never takes the branch that answers "Failed to select station": neither the
  stages' block nor the endpoint returns that response, whatever the other stages do.
\<close>

theorem station_selection_never_fails:
  "select_station d = (Inr True, d)
   \<and> fst (run_stages login navigate select_station fill submit d)
        \<noteq> Inr (failure (''Failed to select station '' @ COCORAHS_STATION) 400)
   \<and> message (fst (submit_cocorahs env form_data)) \<noteq> ''Failed to select station VT-CL-14''"
proof -
  have "message (fst (submit_cocorahs env form_data)) \<noteq> ''Failed to select station VT-CL-14''"
    by (simp add: submit_cocorahs_def with_quit_def run_stages_def select_station_def
        failure_def server_error_def split: prod.splits sum.splits)
  then show ?thesis
    using run_stages_select_station by (simp add: select_station_def)
qed

lemma endpoint_of_block:
  assumes "get_truthy form_data ''reportDate''"
    and "setup_driver env = Inr d0"
    and "with_quit (run_stages (login_to_cocorahs env) (navigate_to_precip_form env)
            select_station (fill_form_fields env form_data) (submit_form env)) d0 = (Inr resp, d')"
  shows "submit_cocorahs env form_data = (resp, Some d')"
  using assms by (simp add: submit_cocorahs_def)

text \<open>
  C2: a stage is called only when every earlier stage returned success. When a stage
  returns failure the block ends there: the driver is left as that stage left it, with
  only the release after it, so no later stage made a call, and the result is the failure
  response of that stage, with status 401 for the authentication stage and 400 for the
  later ones. The endpoint returns what the block returns.
\<close>

theorem pipeline_halts_at_first_failure:
  "(login d0 = (Inr False, d1) \<longrightarrow>
      with_quit (run_stages login navigate select fill submit) d0
        = (Inr \<lparr>success = False, message = ''Failed to log in to CoCoRaHS'', status = 401\<rparr>,
           driver_quit d1))
   \<and> (login d0 = (Inr True, d1) \<and> navigate d1 = (Inr False, d2) \<longrightarrow>
      with_quit (run_stages login navigate select fill submit) d0
        = (Inr \<lparr>success = False, message = ''Failed to navigate to precipitation report form'',
                status = 400\<rparr>,
           driver_quit d2))
   \<and> (login d0 = (Inr True, d1) \<and> navigate d1 = (Inr True, d2) \<and> select d2 = (Inr False, d3) \<longrightarrow>
      with_quit (run_stages login navigate select fill submit) d0
        = (Inr \<lparr>success = False, message = ''Failed to select station VT-CL-14'', status = 400\<rparr>,
           driver_quit d3))
   \<and> (login d0 = (Inr True, d1) \<and> navigate d1 = (Inr True, d2) \<and> select d2 = (Inr True, d3)
        \<and> fill d3 = (Inr False, d4) \<longrightarrow>
      with_quit (run_stages login navigate select fill submit) d0
        = (Inr \<lparr>success = False, message = ''Failed to fill form fields'', status = 400\<rparr>,
           driver_quit d4))
   \<and> (login d0 = (Inr True, d1) \<and> navigate d1 = (Inr True, d2) \<and> select d2 = (Inr True, d3)
        \<and> fill d3 = (Inr True, d4) \<and> submit d4 = (Inr False, d5) \<longrightarrow>
      with_quit (run_stages login navigate select fill submit) d0
        = (Inr \<lparr>success = False, message = ''Failed to submit form to CoCoRaHS'', status = 400\<rparr>,
           driver_quit d5))
   \<and> (get_truthy form_data ''reportDate'' \<and> setup_driver env = Inr d0
        \<and> with_quit (run_stages (login_to_cocorahs env) (navigate_to_precip_form env)
              select_station (fill_form_fields env form_data) (submit_form env)) d0 = (Inr resp, d')
        \<longrightarrow> submit_cocorahs env form_data = (resp, Some d'))"
proof -
  have block: "?thesis = (get_truthy form_data ''reportDate'' \<and> setup_driver env = Inr d0
        \<and> with_quit (run_stages (login_to_cocorahs env) (navigate_to_precip_form env)
              select_station (fill_form_fields env form_data) (submit_form env)) d0 = (Inr resp, d')
        \<longrightarrow> submit_cocorahs env form_data = (resp, Some d'))"
    by (simp add: with_quit_def run_stages_def COCORAHS_STATION_def failure_def)
  show ?thesis
    unfolding block using endpoint_of_block by blast
qed

lemma pair_of_fst: "fst p = a \<Longrightarrow> p = (a, snd p)"
  by (cases p) simp

theorem pipeline_halts_at_first_failure_witness:
  "submit_cocorahs (sample_env False sample_both_page) sample_report
     = (\<lparr>success = False, message = ''Failed to log in to CoCoRaHS'', status = 401\<rparr>,
        Some (driver_quit (snd (login_to_cocorahs (sample_env False sample_both_page)
                                  \<lparr>world = 0, calls = []\<rparr>))))
   \<and> with_quit (run_stages (\<lambda>d. (Inr True, d)) (\<lambda>d. (Inr False, d)) select_station
         (fill_form_fields (sample_env True sample_both_page) sample_report)
         (submit_form (sample_env True sample_both_page))) \<lparr>world = 0, calls = []\<rparr>
     = (Inr \<lparr>success = False, message = ''Failed to navigate to precipitation report form'',
             status = 400\<rparr>, \<lparr>world = 0, calls = [Quit]\<rparr>)"
proof -
  let ?env = "sample_env False sample_both_page"
  let ?d0 = "\<lparr>world = 0 :: nat, calls = []\<rparr>"
  have "fst (login_to_cocorahs ?env ?d0) = Inr False"
    by (simp add: model_defs sample_defs)
  then have login: "login_to_cocorahs ?env ?d0 = (Inr False, snd (login_to_cocorahs ?env ?d0))"
    by (rule pair_of_fst)
  have valid: "get_truthy sample_report ''reportDate''"
    by (simp add: get_truthy_def sample_report_def)
  have created: "setup_driver ?env = Inr ?d0"
    by (simp add: setup_driver_def sample_env_def)
  note inst = pipeline_halts_at_first_failure
    [where login = "login_to_cocorahs ?env" and navigate = "navigate_to_precip_form ?env"
       and select = select_station and fill = "fill_form_fields ?env sample_report"
       and submit = "submit_form ?env" and ?d0.0 = ?d0
       and ?d1.0 = "snd (login_to_cocorahs ?env ?d0)" and env = ?env
       and form_data = sample_report]
  from inst login have "with_quit (run_stages (login_to_cocorahs ?env) (navigate_to_precip_form ?env)
      select_station (fill_form_fields ?env sample_report) (submit_form ?env)) ?d0
      = (Inr \<lparr>success = False, message = ''Failed to log in to CoCoRaHS'', status = 401\<rparr>,
         driver_quit (snd (login_to_cocorahs ?env ?d0)))"
    by blast
  with inst valid created have first: "submit_cocorahs ?env sample_report
     = (\<lparr>success = False, message = ''Failed to log in to CoCoRaHS'', status = 401\<rparr>,
        Some (driver_quit (snd (login_to_cocorahs ?env ?d0))))"
    by blast
  have second: "with_quit (run_stages (\<lambda>d. (Inr True, d)) (\<lambda>d. (Inr False, d)) select_station
         (fill_form_fields (sample_env True sample_both_page) sample_report)
         (submit_form (sample_env True sample_both_page))) ?d0
     = (Inr \<lparr>success = False, message = ''Failed to navigate to precipitation report form'',
             status = 400\<rparr>, \<lparr>world = 0, calls = [Quit]\<rparr>)"
    using pipeline_halts_at_first_failure
      [where login = "\<lambda>d. (Inr True, d)" and navigate = "\<lambda>d. (Inr False, d)"
         and ?d0.0 = ?d0 and ?d1.0 = ?d0 and ?d2.0 = ?d0 and select = select_station
         and fill = "fill_form_fields (sample_env True sample_both_page) sample_report"
         and submit = "submit_form (sample_env True sample_both_page)"]
    by (simp add: driver_quit_def)
  from first second show ?thesis
    by blast
qed

text \<open>
  C3: whatever the five stage functions do, return success, return failure or raise, the
  block ends with the release of the session: the driver it leaves is the one the stages
  left, with the call of quit as its last call. Hence every run of the endpoint that
  created a session returns with that session released, and a run returns no session
  exactly when validation rejected the request or Chrome could not be started.
\<close>

theorem session_always_released:
  "snd (with_quit (run_stages login navigate select fill submit) d0)
     = driver_quit (snd (run_stages login navigate select fill submit d0))
   \<and> last (calls (snd (with_quit (run_stages login navigate select fill submit) d0))) = Quit
   \<and> (login d0 = (Inl e, d1) \<longrightarrow>
        with_quit (run_stages login navigate select fill submit) d0 = (Inl e, driver_quit d1))
   \<and> (get_truthy form_data ''reportDate'' \<and> setup_driver env = Inr d \<longrightarrow>
        (\<exists>resp d'. submit_cocorahs env form_data = (resp, Some d')
            \<and> calls d' \<noteq> [] \<and> last (calls d') = Quit))
   \<and> ((snd (submit_cocorahs env form_data) = None)
        = (\<not> (get_truthy form_data ''reportDate'' \<and> (\<exists>d. setup_driver env = Inr d))))"
proof -
  have a: "snd (with_quit (run_stages login navigate select fill submit) d0)
     = driver_quit (snd (run_stages login navigate select fill submit d0))"
    by (simp add: with_quit_def split: prod.splits)
  have b: "last (calls (snd (with_quit (run_stages login navigate select fill submit) d0))) = Quit"
    unfolding a by (simp add: driver_quit_def)
  have c: "login d0 = (Inl e, d1) \<longrightarrow>
        with_quit (run_stages login navigate select fill submit) d0 = (Inl e, driver_quit d1)"
    by (simp add: with_quit_def run_stages_def)
  have d: "get_truthy form_data ''reportDate'' \<and> setup_driver env = Inr d \<longrightarrow>
        (\<exists>resp d'. submit_cocorahs env form_data = (resp, Some d')
            \<and> calls d' \<noteq> [] \<and> last (calls d') = Quit)"
    by (auto simp: submit_cocorahs_def with_quit_def driver_quit_def split: prod.splits sum.splits)
  have e: "(snd (submit_cocorahs env form_data) = None)
        = (\<not> (get_truthy form_data ''reportDate'' \<and> (\<exists>d. setup_driver env = Inr d)))"
    by (auto simp: submit_cocorahs_def split: prod.splits sum.splits)
  from a b c d e show ?thesis
    by blast
qed

theorem session_always_released_witness:
  "\<exists>resp d'. submit_cocorahs (sample_env True sample_rejected_page) sample_report = (resp, Some d')
      \<and> calls d' \<noteq> [] \<and> last (calls d') = Quit"
proof -
  have "get_truthy sample_report ''reportDate''
      \<and> setup_driver (sample_env True sample_rejected_page) = Inr \<lparr>world = 0, calls = []\<rparr>"
    by (simp add: get_truthy_def sample_report_def setup_driver_def sample_env_def)
  with session_always_released
    [where env = "sample_env True sample_rejected_page" and form_data = sample_report
       and d = "\<lparr>world = 0, calls = []\<rparr>"]
  show ?thesis
    by blast
qed

section \<open>Properties of the element lookup\<close>

lemma find_element_absent:
  "find_element (observe env (world d)) s = Inl e \<Longrightarrow>
   driver_find_element env s d
     = (Raise e :: (element, bool) outcome, d\<lparr>calls := calls d @ [FindElement s]\<rparr>)"
  by (simp add: driver_find_element_def query_def)

lemma find_element_present:
  "find_element (observe env (world d)) s = Inr field \<Longrightarrow>
   driver_find_element env s d
     = (Next field :: (element, bool) outcome, d\<lparr>calls := calls d @ [FindElement s]\<rparr>)"
  by (simp add: driver_find_element_def query_def)

lemma try_selectors_match:
  assumes "list_all (\<lambda>s. isl (find_element (observe env (world d)) s)) before"
    and "find_element (observe env (world d)) s = Inr field"
  shows "try_selectors env (before @ s # later) d
           = (Next (Some field) :: (element option, bool) outcome,
              d\<lparr>calls := calls d @ map FindElement (before @ [s])\<rparr>)"
  using assms
proof (induction before arbitrary: d)
  case Nil
  then show ?case
    by (simp add: try_except_def andthen_def proceed_def find_element_present)
next
  case (Cons a before)
  from Cons.prems(1) obtain e where e: "find_element (observe env (world d)) a = Inl e"
    by (cases "find_element (observe env (world d)) a") auto
  let ?d1 = "d\<lparr>calls := calls d @ [FindElement a]\<rparr>"
  have "try_selectors env (before @ s # later) ?d1
          = (Next (Some field) :: (element option, bool) outcome,
             ?d1\<lparr>calls := calls ?d1 @ map FindElement (before @ [s])\<rparr>)"
    using Cons.prems by (intro Cons.IH) simp_all
  then show ?case
    by (simp add: try_except_def andthen_def find_element_absent [OF e])
qed

lemma try_selectors_none:
  assumes "list_all (\<lambda>s. isl (find_element (observe env (world d)) s)) selectors"
  shows "try_selectors env selectors d
           = (Next None :: (element option, bool) outcome,
              d\<lparr>calls := calls d @ map FindElement selectors\<rparr>)"
  using assms
proof (induction selectors arbitrary: d)
  case Nil
  then show ?case
    by (simp add: proceed_def)
next
  case (Cons a selectors)
  from Cons.prems(1) obtain e where e: "find_element (observe env (world d)) a = Inl e"
    by (cases "find_element (observe env (world d)) a") auto
  let ?d1 = "d\<lparr>calls := calls d @ [FindElement a]\<rparr>"
  have "try_selectors env selectors ?d1
          = (Next None :: (element option, bool) outcome,
             ?d1\<lparr>calls := calls ?d1 @ map FindElement selectors\<rparr>)"
    using Cons.prems by (intro Cons.IH) simp_all
  then show ?case
    by (simp add: try_except_def andthen_def find_element_absent [OF e])
qed

lemma no_fallback_after_match:
  "try_selectors env selectors d = (Next (Some field) :: (element option, bool) outcome, d') \<Longrightarrow>
   andthen (try_selectors env selectors) (css_fallback env css) d = (Next field, d')"
  by (simp add: andthen_def css_fallback_def proceed_def)

text \<open>
  C7: the lookup tries the strategies of its list in order and returns the element of the
  first one that finds one. When the strategies \<open>before\<close> all raise and the next one,
  \<open>s\<close>, finds \<open>field\<close>, the result is \<open>field\<close> and the driver was asked for exactly
  \<open>before\<close> and \<open>s\<close>, in this order: nothing of \<open>later\<close> was tried. In particular, when
  the first strategy finds nothing and the second finds an element, that element is the
  result. When every strategy raises, every one was tried and the result is none. After
  a match in the lists of the user-name and password fields the fallback selector is not
  tried either.
\<close>

theorem first_matching_strategy_wins:
  "(list_all (\<lambda>s. isl (find_element (observe env (world d)) s)) before
      \<and> find_element (observe env (world d)) s = Inr field \<longrightarrow>
    try_selectors env (before @ s # later) d
      = (Next (Some field) :: (element option, bool) outcome,
         d\<lparr>calls := calls d @ map FindElement (before @ [s])\<rparr>))
   \<and> (isl (find_element (observe env (world d)) first)
      \<and> find_element (observe env (world d)) second = Inr field \<longrightarrow>
    try_selectors env (first # second # later) d
      = (Next (Some field) :: (element option, bool) outcome,
         d\<lparr>calls := calls d @ [FindElement first, FindElement second]\<rparr>))
   \<and> (list_all (\<lambda>s. isl (find_element (observe env (world d)) s)) selectors \<longrightarrow>
    try_selectors env selectors d
      = (Next None :: (element option, bool) outcome,
         d\<lparr>calls := calls d @ map FindElement selectors\<rparr>))
   \<and> (username_selectors = before @ s # later
      \<and> list_all (\<lambda>s. isl (find_element (observe env (world d)) s)) before
      \<and> find_element (observe env (world d)) s = Inr field \<longrightarrow>
    find_username_field env d
      = (Next field, d\<lparr>calls := calls d @ map FindElement (before @ [s])\<rparr>))
   \<and> (password_selectors = before @ s # later
      \<and> list_all (\<lambda>s. isl (find_element (observe env (world d)) s)) before
      \<and> find_element (observe env (world d)) s = Inr field \<longrightarrow>
    find_password_field env d
      = (Next field, d\<lparr>calls := calls d @ map FindElement (before @ [s])\<rparr>))"
proof -
  have general: "list_all (\<lambda>s. isl (find_element (observe env (world d)) s)) before
      \<and> find_element (observe env (world d)) s = Inr field \<longrightarrow>
    try_selectors env (before @ s # later) d
      = (Next (Some field) :: (element option, bool) outcome,
         d\<lparr>calls := calls d @ map FindElement (before @ [s])\<rparr>)"
    using try_selectors_match [of env d before s field later] by blast
  have second: "isl (find_element (observe env (world d)) first)
      \<and> find_element (observe env (world d)) second = Inr field \<longrightarrow>
    try_selectors env (first # second # later) d
      = (Next (Some field) :: (element option, bool) outcome,
         d\<lparr>calls := calls d @ [FindElement first, FindElement second]\<rparr>)"
    using try_selectors_match [where before = "[first]" and s = second and env = env and d = d
        and field = field and later = later]
    by simp
  have none: "list_all (\<lambda>s. isl (find_element (observe env (world d)) s)) selectors \<longrightarrow>
    try_selectors env selectors d
      = (Next None :: (element option, bool) outcome,
         d\<lparr>calls := calls d @ map FindElement selectors\<rparr>)"
    using try_selectors_none [of env d selectors] by blast
  have user: "username_selectors = before @ s # later
      \<and> list_all (\<lambda>s. isl (find_element (observe env (world d)) s)) before
      \<and> find_element (observe env (world d)) s = Inr field \<longrightarrow>
    find_username_field env d
      = (Next field, d\<lparr>calls := calls d @ map FindElement (before @ [s])\<rparr>)"
    unfolding find_username_field_def
    using no_fallback_after_match [OF try_selectors_match [of env d before s field later]]
    by auto
  have pass: "password_selectors = before @ s # later
      \<and> list_all (\<lambda>s. isl (find_element (observe env (world d)) s)) before
      \<and> find_element (observe env (world d)) s = Inr field \<longrightarrow>
    find_password_field env d
      = (Next field, d\<lparr>calls := calls d @ map FindElement (before @ [s])\<rparr>)"
    unfolding find_password_field_def
    using no_fallback_after_match [OF try_selectors_match [of env d before s field later]]
    by auto
  from general second none user pass show ?thesis
    by blast
qed

theorem first_matching_strategy_wins_witness:
  "try_selectors (sample_env True sample_both_page) username_selectors \<lparr>world = 0, calls = []\<rparr>
     = (Next (Some 1) :: (element option, bool) outcome,
        \<lparr>world = 0, calls = [FindElement (NAME, ''UserName''), FindElement (NAME, ''username'')]\<rparr>)"
proof -
  let ?env = "sample_env True sample_both_page"
  let ?d = "\<lparr>world = 0 :: nat, calls = []\<rparr>"
  have absent: "isl (find_element (observe ?env (world ?d)) (NAME, ''UserName''))"
    by (simp add: sample_env_def sample_login_page_def no_element_def)
  have present: "find_element (observe ?env (world ?d)) (NAME, ''username'') = Inr 1"
    by (simp add: sample_env_def sample_login_page_def)
  from first_matching_strategy_wins
    [where env = ?env and d = ?d and first = "(NAME, ''UserName'')"
       and second = "(NAME, ''username'')" and field = 1
       and later = "[(ID, ''UserName''), (ID, ''username''), (NAME, ''txtUserName''),
                     (ID, ''txtUserName'')]"]
    absent present
  show ?thesis
    by (simp add: username_selectors_def)
qed

section \<open>Properties of the page classification\<close>

lemma andthen_Next: "m d = (Next x, d') \<Longrightarrow> andthen m k d = k x d'"
  by (simp add: andthen_def)

lemma fst_snd_Next: "fst (m d) = Next x \<Longrightarrow> m d = (Next x, snd (m d))"
  by (cases "m d") simp

text \<open>
  C8: once the login button has been clicked (everything before returned normally), the
  stage looks at the page it sees after the wait, with title \<open>t\<close> and address \<open>u\<close>. It
  returns failure exactly when that page still indicates the login page, that is when
  the title contains "Login" or the address, in lower case, contains "login"; in every
  other case it returns success.
\<close>

theorem login_classification:
  assumes clicked: "fst (login_until_click env d) = Next ()"
    and t: "title (page_after env 4 (snd (login_until_click env d))) = Inr t"
    and u: "current_url (page_after env 4 (snd (login_until_click env d))) = Inr u"
  shows "fst (login_to_cocorahs env d) = Inr (\<not> (py_in ''Login'' t \<or> py_in ''login'' (lower u)))"
proof -
  define d1 where "d1 = snd (login_until_click env d)"
  have run: "andthen (login_until_click env) (\<lambda>u. login_after_click env) d = login_after_click env d1"
    unfolding d1_def using clicked by (intro andthen_Next fst_snd_Next)
  have "fst (login_after_click env d1)
          = Return (\<not> (py_in ''Login'' t \<or> py_in ''login'' (lower u)))"
    using t u unfolding d1_def [symmetric]
    by (simp add: login_after_click_def andthen_def time_sleep_def driver_title_def
        driver_current_url_def query_def ret_def page_after_def)
  then obtain dd where "login_after_click env d1
      = (Return (\<not> (py_in ''Login'' t \<or> py_in ''login'' (lower u))), dd)"
    by (cases "login_after_click env d1") auto
  then show ?thesis
    by (simp add: login_to_cocorahs_def stage_def run)
qed

theorem login_classification_witness:
  "fst (login_to_cocorahs (sample_env True sample_both_page) \<lparr>world = 0, calls = []\<rparr>) = Inr True
   \<and> fst (login_to_cocorahs (sample_env False sample_both_page) \<lparr>world = 0, calls = []\<rparr>) = Inr False"
proof -
  let ?d = "\<lparr>world = 0 :: nat, calls = []\<rparr>"
  let ?yes = "sample_env True sample_both_page"
  let ?no = "sample_env False sample_both_page"
  have "fst (login_until_click ?yes ?d) = Next ()"
    and "title (page_after ?yes 4 (snd (login_until_click ?yes ?d))) = Inr ''Daily Precipitation Report''"
    and "current_url (page_after ?yes 4 (snd (login_until_click ?yes ?d)))
           = Inr ''https://www.cocorahs.org/Admin/MyDataEntry/DailyPrecipReport.aspx''"
    by (simp_all add: model_defs sample_defs)
  then have accepted: "fst (login_to_cocorahs ?yes ?d)
      = Inr (\<not> (py_in ''Login'' ''Daily Precipitation Report''
             \<or> py_in ''login'' (lower ''https://www.cocorahs.org/Admin/MyDataEntry/DailyPrecipReport.aspx'')))"
    by (rule login_classification)
  have "fst (login_until_click ?no ?d) = Next ()"
    and "title (page_after ?no 4 (snd (login_until_click ?no ?d))) = Inr ''CoCoRaHS Login''"
    and "current_url (page_after ?no 4 (snd (login_until_click ?no ?d)))
           = Inr ''https://www.cocorahs.org/Login.aspx''"
    by (simp_all add: model_defs sample_defs)
  then have rejected: "fst (login_to_cocorahs ?no ?d)
      = Inr (\<not> (py_in ''Login'' ''CoCoRaHS Login''
             \<or> py_in ''login'' (lower ''https://www.cocorahs.org/Login.aspx'')))"
    by (rule login_classification)
  from accepted rejected show ?thesis
    by (simp add: lower_def char_lower_def upper_latin1_def lower_latin1_def)
qed

lemma read_texts_readable:
  "list_all (\<lambda>e. case text_of (observe env (world d)) e of Inr s \<Rightarrow> True | Inl x \<Rightarrow> False) es
   \<Longrightarrow> \<exists>ts d'. read_texts env es d = (Next ts :: (string list, bool) outcome, d') \<and> world d' = world d"
proof (induction es arbitrary: d)
  case Nil
  then show ?case by (simp add: proceed_def)
next
  case (Cons e es)
  then obtain s where s: "text_of (observe env (world d)) e = Inr s"
    by (auto split: sum.splits)
  let ?d1 = "d\<lparr>calls := calls d @ [Text e]\<rparr>"
  have "list_all (\<lambda>e. case text_of (observe env (world ?d1)) e of Inr s \<Rightarrow> True | Inl x \<Rightarrow> False) es"
    using Cons.prems by simp
  from Cons.IH [OF this] obtain ts d' where
    r: "read_texts env es ?d1 = (Next ts :: (string list, bool) outcome, d')" and w: "world d' = world d"
    by auto
  show ?case
    using s r w by (simp add: andthen_def elem_text_def query_def proceed_def)
qed

lemma success_check_result:
  "fst (success_check env d)
     = (if elements_present (observe env (world d)) (CLASS_NAME, ''successmessage'')
        then Return True else Next ())
   \<and> world (snd (success_check env d)) = world d"
  by (simp add: success_check_def try_except_def andthen_def driver_find_elements_def query_def
      ret_def proceed_def elements_present_def split: sum.splits list.splits)

lemma error_check_result:
  assumes "texts_readable (observe env (world d)) (CLASS_NAME, ''errormessage'')"
  shows "fst (error_check env d)
     = (if elements_present (observe env (world d)) (CLASS_NAME, ''errormessage'')
        then Return False else Next ())"
proof (cases "find_elements (observe env (world d)) (CLASS_NAME, ''errormessage'')")
  case (Inl e)
  then show ?thesis
    by (simp add: error_check_def try_except_def andthen_def driver_find_elements_def query_def
        proceed_def elements_present_def)
next
  case (Inr es)
  let ?d1 = "d\<lparr>calls := calls d @ [FindElements (CLASS_NAME, ''errormessage'')]\<rparr>"
  have "list_all (\<lambda>e. case text_of (observe env (world ?d1)) e of Inr s \<Rightarrow> True | Inl x \<Rightarrow> False) es"
    using assms Inr by (simp add: texts_readable_def)
  from read_texts_readable [OF this] obtain ts d' where
    "read_texts env es ?d1 = (Next ts :: (string list, bool) outcome, d')"
    by blast
  then show ?thesis
    using Inr
    by (simp add: error_check_def try_except_def andthen_def driver_find_elements_def query_def
        ret_def proceed_def elements_present_def split: list.splits)
qed

text \<open>
  C1: once the submit control has been clicked (everything before returned normally), the
  stage classifies the page it sees after the wait, whose title and address can be read
  (the address is \<open>u\<close>) and whose error messages have a readable text, in this order: a
  success message present gives success; otherwise an address that does not contain
  "DailyPrecipReport" gives success; otherwise an error message present gives failure;
  otherwise success. So a page with both a success and an error message is a success.
\<close>

theorem submission_classification:
  assumes clicked: "fst (submit_until_click env d) = Next ()"
    and t: "title (page_after env 3 (snd (submit_until_click env d))) = Inr t"
    and u: "current_url (page_after env 3 (snd (submit_until_click env d))) = Inr u"
    and r: "texts_readable (page_after env 3 (snd (submit_until_click env d)))
              (CLASS_NAME, ''errormessage'')"
  shows "fst (submit_form env d) =
           Inr (if elements_present (page_after env 3 (snd (submit_until_click env d)))
                     (CLASS_NAME, ''successmessage'') then True
                else if \<not> py_in ''DailyPrecipReport'' u then True
                else if elements_present (page_after env 3 (snd (submit_until_click env d)))
                     (CLASS_NAME, ''errormessage'') then False
                else True)"
proof -
  define d1 where "d1 = snd (submit_until_click env d)"
  define p where "p = page_after env 3 d1"
  define dA where "dA = d1\<lparr>world := elapse env 3 (world d1)\<rparr>"
  define dB where "dB = dA\<lparr>calls := calls dA @ [Title]\<rparr>"
  define dC where "dC = dB\<lparr>calls := calls dB @ [CurrentUrl]\<rparr>"
  have run: "andthen (submit_until_click env) (\<lambda>u. submit_after_click env) d = submit_after_click env d1"
    unfolding d1_def using clicked by (intro andthen_Next fst_snd_Next)
  have t': "title p = Inr t" and u': "current_url p = Inr u"
    and r': "texts_readable p (CLASS_NAME, ''errormessage'')"
    using t u r by (simp_all add: p_def d1_def)
  have pA: "observe env (world dA) = p" and pB: "observe env (world dB) = p"
    and pC: "observe env (world dC) = p"
    by (simp_all add: dA_def dB_def dC_def p_def page_after_def)
  have 1: "time_sleep env 3 d1 = (Next () :: (unit, bool) outcome, dA)"
    by (simp add: time_sleep_def dA_def)
  have 2: "driver_title env dA = (Next t :: (string, bool) outcome, dB)"
    by (simp add: driver_title_def query_def pA t' dB_def)
  have 3: "driver_current_url env dB = (Next u :: (string, bool) outcome, dC)"
    by (simp add: driver_current_url_def query_def pB u' dC_def)
  obtain s3 d3 where 4: "success_check env dC = (s3, d3)"
    by (cases "success_check env dC")
  have s3: "s3 = (if elements_present p (CLASS_NAME, ''successmessage'') then Return True else Next ())"
    and p3: "observe env (world d3) = p"
    using success_check_result [of env dC] by (simp_all add: 4 pC)
  define d4 where "d4 = d3\<lparr>calls := calls d3 @ [CurrentUrl]\<rparr>"
  have p4: "observe env (world d4) = p"
    by (simp add: d4_def p3)
  have 5: "driver_current_url env d3 = (Next u :: (string, bool) outcome, d4)"
    by (simp add: driver_current_url_def query_def p3 u' d4_def)
  obtain s5 d5 where 6: "error_check env d4 = (s5, d5)"
    by (cases "error_check env d4")
  have "texts_readable (observe env (world d4)) (CLASS_NAME, ''errormessage'')"
    using r' by (simp add: p4)
  from error_check_result [OF this]
  have s5: "s5 = (if elements_present p (CLASS_NAME, ''errormessage'') then Return False else Next ())"
    by (simp add: 6 p4)
  have "fst (submit_after_click env d1) =
          Return (if elements_present p (CLASS_NAME, ''successmessage'') then True
                  else if \<not> py_in ''DailyPrecipReport'' u then True
                  else if elements_present p (CLASS_NAME, ''errormessage'') then False
                  else True)"
    by (simp add: submit_after_click_def andthen_def ret_def 1 2 3 4 5 6 s3 s5)
  then obtain dd where "submit_after_click env d1 =
          (Return (if elements_present p (CLASS_NAME, ''successmessage'') then True
                  else if \<not> py_in ''DailyPrecipReport'' u then True
                  else if elements_present p (CLASS_NAME, ''errormessage'') then False
                  else True), dd)"
    by (cases "submit_after_click env d1") auto
  then show ?thesis
    by (simp add: submit_form_def stage_def run p_def d1_def)
qed

theorem submission_classification_witness:
  "elements_present sample_both_page (CLASS_NAME, ''successmessage'')
   \<and> elements_present sample_both_page (CLASS_NAME, ''errormessage'')
   \<and> fst (submit_form (sample_env True sample_both_page) \<lparr>world = 1, calls = []\<rparr>) = Inr True
   \<and> fst (submit_form (sample_env True sample_rejected_page) \<lparr>world = 1, calls = []\<rparr>) = Inr False"
proof -
  let ?d = "\<lparr>world = 1 :: nat, calls = []\<rparr>"
  let ?both = "sample_env True sample_both_page"
  let ?rej = "sample_env True sample_rejected_page"
  let ?url = "''https://www.cocorahs.org/Admin/MyDataEntry/DailyPrecipReport.aspx''"
  have pb: "page_after ?both 3 (snd (submit_until_click ?both ?d)) = sample_both_page"
    by (simp add: model_defs sample_defs)
  have "fst (submit_until_click ?both ?d) = Next ()"
    and "title (page_after ?both 3 (snd (submit_until_click ?both ?d)))
           = Inr ''Daily Precipitation Report''"
    and "current_url (page_after ?both 3 (snd (submit_until_click ?both ?d))) = Inr ?url"
    and "texts_readable (page_after ?both 3 (snd (submit_until_click ?both ?d)))
           (CLASS_NAME, ''errormessage'')"
    unfolding pb by (simp_all add: model_defs sample_defs)
  from submission_classification [OF this]
  have both: "fst (submit_form ?both ?d) = Inr True"
    unfolding pb by (simp add: elements_present_def sample_both_page_def)
  have pr: "page_after ?rej 3 (snd (submit_until_click ?rej ?d)) = sample_rejected_page"
    by (simp add: model_defs sample_defs)
  have "fst (submit_until_click ?rej ?d) = Next ()"
    and "title (page_after ?rej 3 (snd (submit_until_click ?rej ?d)))
           = Inr ''Daily Precipitation Report''"
    and "current_url (page_after ?rej 3 (snd (submit_until_click ?rej ?d))) = Inr ?url"
    and "texts_readable (page_after ?rej 3 (snd (submit_until_click ?rej ?d)))
           (CLASS_NAME, ''errormessage'')"
    unfolding pr by (simp_all add: model_defs sample_defs)
  from submission_classification [OF this]
  have rejected: "fst (submit_form ?rej ?d) = Inr False"
    unfolding pr by (simp add: elements_present_def sample_rejected_page_def)
  from both rejected show ?thesis
    by (simp add: elements_present_def sample_both_page_def)
qed

section \<open>Properties of the fill stage\<close>

lemma log_form_inputs_no_return: "fst (log_form_inputs env inputs d) \<noteq> Return r"
proof (induction inputs arbitrary: d)
  case Nil
  then show ?case by (simp add: proceed_def)
next
  case (Cons inp inputs)
  show ?case
    using Cons.IH
    by (auto simp: andthen_def elem_get_attribute_def query_def proceed_def
        split: sum.splits prod.splits outcome.splits if_splits)
qed

lemma log_form_inputs_ReturnD: "log_form_inputs env inputs d = (Return r, d') \<Longrightarrow> False"
  using log_form_inputs_no_return [of env inputs d r] by simp

lemma fill_prepare_no_return: "fst (fill_prepare env form_data d) \<noteq> Return r"
  by (auto simp: fill_prepare_def andthen_def time_sleep_def driver_find_elements_def query_def
      lift_def proceed_def split: sum.splits prod.splits outcome.splits
      dest: log_form_inputs_ReturnD)

lemma fill_prepare_needs_date:
  "parse_report_date env form_data = Inl e \<Longrightarrow>
   fst (fill_prepare env form_data d) \<noteq> (Next m :: (mapping_entry list, bool) outcome)"
  by (auto simp: fill_prepare_def andthen_def time_sleep_def driver_find_elements_def query_def
      lift_def proceed_def split: sum.splits prod.splits outcome.splits)

lemma fill_one_continues:
  "\<exists>d'. fill_one env (name, field_id, v) d = (Next () :: (unit, bool) outcome, d')
        \<and> (\<exists>cs. calls d' = calls d @ cs)
        \<and> (populated v \<longrightarrow> FindElement (ID, field_id) \<in> set (calls d'))"
  by (auto simp: fill_one_def try_except_def andthen_def proceed_def driver_find_element_def
      query_def elem_clear_def elem_send_keys_def perform_def
      split: prod.splits option.splits sum.splits)

lemma fill_each_continues:
  "\<exists>d'. fill_each env mapping d = (Next () :: (unit, bool) outcome, d')
        \<and> (\<exists>cs. calls d' = calls d @ cs)
        \<and> (\<forall>(name, field_id, v) \<in> set mapping.
              populated v \<longrightarrow> FindElement (ID, field_id) \<in> set (calls d'))"
proof (induction mapping arbitrary: d)
  case Nil
  then show ?case by (simp add: proceed_def)
next
  case (Cons entry mapping)
  obtain name field_id v where entry: "entry = (name, field_id, v)"
    by (cases entry) auto
  from fill_one_continues [of env name field_id v d] obtain d1 cs1 where
    one: "fill_one env (name, field_id, v) d = (Next () :: (unit, bool) outcome, d1)"
    and c1: "calls d1 = calls d @ cs1"
    and f1: "populated v \<longrightarrow> FindElement (ID, field_id) \<in> set (calls d1)"
    by blast
  from Cons.IH [of d1] obtain d2 cs2 where
    rest: "fill_each env mapping d1 = (Next () :: (unit, bool) outcome, d2)"
    and c2: "calls d2 = calls d1 @ cs2"
    and f2: "\<forall>(name, field_id, v) \<in> set mapping.
              populated v \<longrightarrow> FindElement (ID, field_id) \<in> set (calls d2)"
    by blast
  have "fill_each env (entry # mapping) d = (Next () :: (unit, bool) outcome, d2)"
    by (simp add: entry andthen_def one rest)
  moreover have "calls d2 = calls d @ (cs1 @ cs2)"
    by (simp add: c1 c2)
  moreover have "\<forall>(name, field_id, v) \<in> set (entry # mapping).
              populated v \<longrightarrow> FindElement (ID, field_id) \<in> set (calls d2)"
    using f1 f2 by (simp add: entry c2)
  ultimately show ?case
    by blast
qed

lemma fill_notes_continues:
  "\<exists>d'. fill_notes env form_data d = (Next () :: (unit, bool) outcome, d')
        \<and> (\<exists>cs. calls d' = calls d @ cs)"
  by (auto simp: fill_notes_def try_except_def andthen_def proceed_def driver_find_element_def
      query_def elem_clear_def elem_send_keys_def perform_def
      split: prod.splits option.splits sum.splits)

lemma fill_after_prepare:
  assumes "fill_prepare env form_data d = (Next m :: (mapping_entry list, bool) outcome, d1)"
  shows "\<exists>d3. fill_form_fields env form_data d = (Inr True, d3)
           \<and> (\<forall>(name, field_id, v) \<in> set m.
                 populated v \<longrightarrow> FindElement (ID, field_id) \<in> set (calls d3))"
proof -
  from fill_each_continues [of env m d1] obtain d2 where
    each: "fill_each env m d1 = (Next () :: (unit, bool) outcome, d2)"
    and f2: "\<forall>(name, field_id, v) \<in> set m.
            populated v \<longrightarrow> FindElement (ID, field_id) \<in> set (calls d2)"
    by blast
  from fill_notes_continues [of env form_data d2] obtain d3 cs3 where
    nts: "fill_notes env form_data d2 = (Next () :: (unit, bool) outcome, d3)"
    and c3: "calls d3 = calls d2 @ cs3"
    by blast
  have "fill_form_fields env form_data d = (Inr True, d3)"
    by (simp add: fill_form_fields_def stage_def andthen_def ret_def assms each nts)
  moreover have "\<forall>(name, field_id, v) \<in> set m.
            populated v \<longrightarrow> FindElement (ID, field_id) \<in> set (calls d3)"
    using f2 by (auto simp: c3)
  ultimately show ?thesis
    by blast
qed

lemma fill_prepare_raises:
  assumes "fill_prepare env form_data d = (Raise e :: (mapping_entry list, bool) outcome, d1)"
  shows "fill_form_fields env form_data d = (Inr False, d1)"
  by (simp add: fill_form_fields_def stage_def andthen_def assms)

lemma fill_fails_without_date:
  assumes "parse_report_date env form_data = Inl e"
  shows "fst (fill_form_fields env form_data d) = Inr False"
proof (cases "fill_prepare env form_data d :: (mapping_entry list, bool) outcome \<times> 'a driver")
  case (Pair out d1)
  show ?thesis
  proof (cases out)
    case (Next m)
    then show ?thesis
      using fill_prepare_needs_date [OF assms, of d m] Pair by simp
  next
    case (Return r)
    then show ?thesis
      using fill_prepare_no_return [of env form_data d r] Pair by simp
  next
    case (Raise x)
    then show ?thesis
      using fill_prepare_raises [of env form_data d x d1] Pair by simp
  qed
qed

lemma fill_one_skips:
  "\<not> populated v \<Longrightarrow> fill_one env (name, field_id, v) d = (Next () :: (unit, bool) outcome, d)"
  by (simp add: fill_one_def proceed_def)

lemma fill_one_not_found:
  "populated v \<Longrightarrow> find_element (observe env (world d)) (ID, field_id) = Inl e \<Longrightarrow>
   fill_one env (name, field_id, v) d
     = (Next () :: (unit, bool) outcome, d\<lparr>calls := calls d @ [FindElement (ID, field_id)]\<rparr>)"
  by (simp add: fill_one_def try_except_def andthen_def proceed_def driver_find_element_def
      query_def)

lemma fill_one_clear_rejected:
  "populated v \<Longrightarrow> find_element (observe env (world d)) (ID, field_id) = Inr field \<Longrightarrow>
   react env (Clear field) (world d) = (Some e, w1) \<Longrightarrow>
   fill_one env (name, field_id, v) d
     = (Next () :: (unit, bool) outcome,
        d\<lparr>world := w1, calls := calls d @ [FindElement (ID, field_id), Did (Clear field)]\<rparr>)"
  by (simp add: fill_one_def try_except_def andthen_def proceed_def driver_find_element_def
      query_def elem_clear_def perform_def)

lemma fill_one_written:
  "populated v \<Longrightarrow> find_element (observe env (world d)) (ID, field_id) = Inr field \<Longrightarrow>
   react env (Clear field) (world d) = (None, w1) \<Longrightarrow>
   react env (SendKeys field v) w1 = (r, w2) \<Longrightarrow>
   fill_one env (name, field_id, v) d
     = (Next () :: (unit, bool) outcome,
        d\<lparr>world := w2,
          calls := calls d @ [FindElement (ID, field_id), Did (Clear field),
                              Did (SendKeys field v)]\<rparr>)"
  by (cases r)
    (simp_all add: fill_one_def try_except_def andthen_def proceed_def driver_find_element_def
      query_def elem_clear_def elem_send_keys_def perform_def)

lemma fill_each_Cons:
  "fill_each env (entry # rest) d
     = (fill_each env rest (snd (fill_one env entry d :: (unit, bool) outcome \<times> 'a driver))
          :: (unit, bool) outcome \<times> 'a driver)"
proof -
  obtain name field_id v where entry: "entry = (name, field_id, v)"
    by (cases entry) auto
  from fill_one_continues [of env name field_id v d] obtain d1 where
    "fill_one env entry d = (Next () :: (unit, bool) outcome, d1)"
    unfolding entry by blast
  then show ?thesis
    by (simp add: andthen_def)
qed

lemma fill_each_append:
  "fill_each env (before @ rest) d
     = (fill_each env rest (snd (fill_each env before d :: (unit, bool) outcome \<times> 'a driver))
          :: (unit, bool) outcome \<times> 'a driver)"
proof (induction before arbitrary: d)
  case Nil
  then show ?case by (simp add: proceed_def)
next
  case (Cons entry before)
  show ?case
    by (simp only: append_Cons fill_each_Cons Cons.IH)
qed

lemma fill_each_reaches:
  "fill_each env (before @ entry # rest) d
     = (fill_each env rest
          (snd (fill_one env entry
                  (snd (fill_each env before d :: (unit, bool) outcome \<times> 'a driver))
                :: (unit, bool) outcome \<times> 'a driver))
          :: (unit, bool) outcome \<times> 'a driver)"
  by (simp only: fill_each_append [of env before] fill_each_Cons)

lemma fill_notes_skipped:
  "\<not> get_truthy form_data ''additionalNotes'' \<Longrightarrow>
   fill_notes env form_data d = (Next () :: (unit, bool) outcome, d)"
  by (simp add: fill_notes_def proceed_def)

lemma fill_notes_not_found:
  "get_truthy form_data ''additionalNotes'' \<Longrightarrow>
   find_element (observe env (world d)) (ID, ''frmReport_txtNotes'') = Inl e \<Longrightarrow>
   fill_notes env form_data d
     = (Next () :: (unit, bool) outcome,
        d\<lparr>calls := calls d @ [FindElement (ID, ''frmReport_txtNotes'')]\<rparr>)"
  by (simp add: fill_notes_def try_except_def andthen_def proceed_def driver_find_element_def
      query_def)

lemma fill_notes_clear_rejected:
  "get_truthy form_data ''additionalNotes'' \<Longrightarrow>
   find_element (observe env (world d)) (ID, ''frmReport_txtNotes'') = Inr field \<Longrightarrow>
   react env (Clear field) (world d) = (Some e, w1) \<Longrightarrow>
   fill_notes env form_data d
     = (Next () :: (unit, bool) outcome,
        d\<lparr>world := w1,
          calls := calls d @ [FindElement (ID, ''frmReport_txtNotes''), Did (Clear field)]\<rparr>)"
  by (simp add: fill_notes_def try_except_def andthen_def proceed_def driver_find_element_def
      query_def elem_clear_def perform_def)

lemma fill_notes_written:
  "get_truthy form_data ''additionalNotes'' \<Longrightarrow>
   find_element (observe env (world d)) (ID, ''frmReport_txtNotes'') = Inr field \<Longrightarrow>
   react env (Clear field) (world d) = (None, w1) \<Longrightarrow>
   react env (SendKeys field (get_str form_data ''additionalNotes'')) w1 = (r, w2) \<Longrightarrow>
   fill_notes env form_data d
     = (Next () :: (unit, bool) outcome,
        d\<lparr>world := w2,
          calls := calls d @ [FindElement (ID, ''frmReport_txtNotes''), Did (Clear field),
                              Did (SendKeys field (get_str form_data ''additionalNotes''))]\<rparr>)"
  by (cases r)
    (simp_all add: fill_notes_def try_except_def andthen_def proceed_def driver_find_element_def
      query_def elem_clear_def elem_send_keys_def perform_def)

lemma fill_stage_result:
  assumes "fst (fill_prepare env form_data d) = (Next mapping :: (mapping_entry list, bool) outcome)"
  shows "fill_form_fields env form_data d
     = (Inr True,
        snd (fill_notes env form_data
          (snd (fill_each env mapping
             (snd (fill_prepare env form_data d :: (mapping_entry list, bool) outcome \<times> 'a driver))
                :: (unit, bool) outcome \<times> 'a driver))
          :: (unit, bool) outcome \<times> 'a driver))"
proof -
  define d1 where "d1 = snd (fill_prepare env form_data d :: (mapping_entry list, bool) outcome \<times> 'a driver)"
  have prep: "fill_prepare env form_data d = (Next mapping :: (mapping_entry list, bool) outcome, d1)"
    using assms unfolding d1_def by (cases "fill_prepare env form_data d :: (mapping_entry list, bool) outcome \<times> 'a driver") simp
  from fill_each_continues [of env mapping d1] obtain d2 where
    each: "fill_each env mapping d1 = (Next () :: (unit, bool) outcome, d2)"
    by blast
  from fill_notes_continues [of env form_data d2] obtain d3 where
    nts: "fill_notes env form_data d2 = (Next () :: (unit, bool) outcome, d3)"
    by blast
  show ?thesis
    unfolding d1_def [symmetric]
    by (simp add: fill_form_fields_def stage_def andthen_def ret_def prep each nts)
qed

lemma fill_stage_cases:
  "(fst (fill_prepare env form_data d) = (Next mapping :: (mapping_entry list, bool) outcome) \<longrightarrow>
      fst (fill_form_fields env form_data d) = Inr True
      \<and> (\<forall>(name, field_id, field_value) \<in> set mapping.
            populated field_value \<longrightarrow>
            FindElement (ID, field_id) \<in> set (calls (snd (fill_form_fields env form_data d)))))
   \<and> (fst (fill_form_fields env form_data d) = Inr False
        \<longleftrightarrow> (\<exists>e. fst (fill_prepare env form_data d) = (Raise e :: (mapping_entry list, bool) outcome)))
   \<and> (\<exists>b. fst (fill_form_fields env form_data d) = Inr b)"
proof (cases "fill_prepare env form_data d :: (mapping_entry list, bool) outcome \<times> 'a driver")
  case (Pair out d1)
  show ?thesis
  proof (cases out)
    case (Next m)
    from fill_after_prepare [of env form_data d m d1] Pair Next obtain d3 where
      "fill_form_fields env form_data d = (Inr True, d3)"
      and "\<forall>(name, field_id, v) \<in> set m.
            populated v \<longrightarrow> FindElement (ID, field_id) \<in> set (calls d3)"
      by auto
    then show ?thesis
      using Pair Next by auto
  next
    case (Return r)
    then show ?thesis
      using fill_prepare_no_return [of env form_data d r] Pair by simp
  next
    case (Raise e)
    then show ?thesis
      using fill_prepare_raises [of env form_data d e d1] Pair by auto
  qed
qed

lemma fill_stage_lookups:
  assumes "fst (fill_prepare env form_data d) = (Next mapping :: (mapping_entry list, bool) outcome)"
  shows "\<forall>(name, field_id, field_value) \<in> set mapping.
            populated field_value \<longrightarrow>
            FindElement (ID, field_id) \<in> set (calls (snd (fill_form_fields env form_data d)))"
  using fill_stage_cases [of env form_data d mapping] assms by blast

lemma fill_stage_fails_iff:
  "(fst (fill_form_fields env form_data d) = Inr False)
     = (\<exists>e. fst (fill_prepare env form_data d) = (Raise e :: (mapping_entry list, bool) outcome))"
  using fill_stage_cases [of env form_data d] by blast

lemma fill_stage_total: "\<exists>b. fst (fill_form_fields env form_data d) = Inr b"
  using fill_stage_cases [of env form_data d] by blast

text \<open>
  C4: a failure at one field does not end the stage. An entry that is not populated is
  skipped with no call; a populated entry whose element is not found costs the lookup
  only; one whose element rejects being cleared costs lookup and clear; otherwise the
  value is written after lookup and clear, whether the write is accepted or not. In
  each case the loop goes on: every entry of the mapping is processed, from the state the
  entries before it left, and the notes are handled in the same way after the loop. So
  when the stage got as far as the mapping it returns success, in the state the loop and
  the notes step left, and every populated entry was looked up. The stage returns failure
  exactly when an exception ended it before the mapping was there (in the wait, the
  listing of the form's elements, the parse of the date or the construction of the
  mapping), and it never raises.
\<close>

theorem fill_is_best_effort:
  "(\<not> populated v \<longrightarrow>
      fill_one env (name, field_id, v) s = (Next () :: (unit, bool) outcome, s))
   \<and> (populated v \<and> find_element (observe env (world s)) (ID, field_id) = Inl e \<longrightarrow>
      fill_one env (name, field_id, v) s
        = (Next () :: (unit, bool) outcome,
           s\<lparr>calls := calls s @ [FindElement (ID, field_id)]\<rparr>))
   \<and> (populated v \<and> find_element (observe env (world s)) (ID, field_id) = Inr field
        \<and> react env (Clear field) (world s) = (Some e, w1) \<longrightarrow>
      fill_one env (name, field_id, v) s
        = (Next () :: (unit, bool) outcome,
           s\<lparr>world := w1, calls := calls s @ [FindElement (ID, field_id), Did (Clear field)]\<rparr>))
   \<and> (populated v \<and> find_element (observe env (world s)) (ID, field_id) = Inr field
        \<and> react env (Clear field) (world s) = (None, w1)
        \<and> react env (SendKeys field v) w1 = (r, w2) \<longrightarrow>
      fill_one env (name, field_id, v) s
        = (Next () :: (unit, bool) outcome,
           s\<lparr>world := w2,
             calls := calls s @ [FindElement (ID, field_id), Did (Clear field),
                                 Did (SendKeys field v)]\<rparr>))
   \<and> fill_each env [] s = (Next () :: (unit, bool) outcome, s)
   \<and> fill_each env (before @ (name, field_id, v) # rest) s
        = (fill_each env rest
             (snd (fill_one env (name, field_id, v)
                     (snd (fill_each env before s :: (unit, bool) outcome \<times> 'a driver))
                   :: (unit, bool) outcome \<times> 'a driver))
             :: (unit, bool) outcome \<times> 'a driver)
   \<and> (\<not> get_truthy form_data ''additionalNotes'' \<longrightarrow>
      fill_notes env form_data s = (Next () :: (unit, bool) outcome, s))
   \<and> (get_truthy form_data ''additionalNotes''
        \<and> find_element (observe env (world s)) (ID, ''frmReport_txtNotes'') = Inl e \<longrightarrow>
      fill_notes env form_data s
        = (Next () :: (unit, bool) outcome,
           s\<lparr>calls := calls s @ [FindElement (ID, ''frmReport_txtNotes'')]\<rparr>))
   \<and> (get_truthy form_data ''additionalNotes''
        \<and> find_element (observe env (world s)) (ID, ''frmReport_txtNotes'') = Inr field
        \<and> react env (Clear field) (world s) = (Some e, w1) \<longrightarrow>
      fill_notes env form_data s
        = (Next () :: (unit, bool) outcome,
           s\<lparr>world := w1,
             calls := calls s @ [FindElement (ID, ''frmReport_txtNotes''), Did (Clear field)]\<rparr>))
   \<and> (get_truthy form_data ''additionalNotes''
        \<and> find_element (observe env (world s)) (ID, ''frmReport_txtNotes'') = Inr field
        \<and> react env (Clear field) (world s) = (None, w1)
        \<and> react env (SendKeys field (get_str form_data ''additionalNotes'')) w1 = (r, w2) \<longrightarrow>
      fill_notes env form_data s
        = (Next () :: (unit, bool) outcome,
           s\<lparr>world := w2,
             calls := calls s @ [FindElement (ID, ''frmReport_txtNotes''), Did (Clear field),
                                 Did (SendKeys field (get_str form_data ''additionalNotes''))]\<rparr>))
   \<and> (fst (fill_prepare env form_data d) = (Next mapping :: (mapping_entry list, bool) outcome) \<longrightarrow>
      fill_form_fields env form_data d
        = (Inr True,
           snd (fill_notes env form_data
             (snd (fill_each env mapping
                (snd (fill_prepare env form_data d :: (mapping_entry list, bool) outcome \<times> 'a driver))
                   :: (unit, bool) outcome \<times> 'a driver))
             :: (unit, bool) outcome \<times> 'a driver))
      \<and> (\<forall>(name, field_id, field_value) \<in> set mapping.
            populated field_value \<longrightarrow>
            FindElement (ID, field_id) \<in> set (calls (snd (fill_form_fields env form_data d)))))
   \<and> (fst (fill_form_fields env form_data d) = Inr False
        \<longleftrightarrow> (\<exists>e. fst (fill_prepare env form_data d) = (Raise e :: (mapping_entry list, bool) outcome)))
   \<and> (\<exists>b. fst (fill_form_fields env form_data d) = Inr b)"
  apply (intro conjI impI)
  subgoal by (rule fill_one_skips)
  subgoal by (elim conjE) (rule fill_one_not_found)
  subgoal by (elim conjE) (rule fill_one_clear_rejected)
  subgoal by (elim conjE) (rule fill_one_written)
  subgoal by (simp add: proceed_def)
  subgoal by (rule fill_each_reaches)
  subgoal by (rule fill_notes_skipped)
  subgoal by (elim conjE) (rule fill_notes_not_found)
  subgoal by (elim conjE) (rule fill_notes_clear_rejected)
  subgoal by (elim conjE) (rule fill_notes_written)
  subgoal by (rule fill_stage_result)
  subgoal by (rule fill_stage_lookups)
  subgoal by (rule fill_stage_fails_iff)
  subgoal by (rule fill_stage_total)
  done

theorem fill_is_best_effort_witness:
  "find_element sample_form_page (ID, ''frmReport_prTotalPrecip__ctl1_tbPrecip'')
     = Inl (NoSuchElementException ''no such element'')
   \<and> react (sample_env True sample_both_page) (SendKeys 11 ''07:30'') 1
     = (Some (WebDriverException ''element not interactable''), 1)
   \<and> fst (fill_form_fields (sample_env True sample_both_page) noted_report
             \<lparr>world = 1, calls = []\<rparr>) = Inr True
   \<and> calls (snd (fill_form_fields (sample_env True sample_both_page) noted_report
                    \<lparr>world = 1, calls = []\<rparr>))
     = calls (snd (fill_prepare (sample_env True sample_both_page) noted_report
                     \<lparr>world = 1, calls = []\<rparr> :: (mapping_entry list, bool) outcome \<times> nat driver))
       @ [FindElement (ID, ''frmReport_dcObsDate_di''), Did (Clear 10),
          Did (SendKeys 10 ''01/05/2024''),
          FindElement (ID, ''frmReport_tObsTime_txtTime''), Did (Clear 11),
          Did (SendKeys 11 ''07:30''),
          FindElement (ID, ''frmReport_prTotalPrecip__ctl1_tbPrecip''),
          FindElement (ID, ''frmReport_prNewSnowAmount__ctl1_tbPrecip''), Did (Clear 12),
          Did (SendKeys 12 ''2''),
          FindElement (ID, ''frmReport_txtNotes''), Did (Clear 14),
          Did (SendKeys 14 ''windy'')]"
proof -
  let ?env = "sample_env True sample_both_page"
  let ?d = "\<lparr>world = 1 :: nat, calls = []\<rparr>"
  let ?m = "fields_to_fill \<lparr>year = 2024, month = 1, day = 5, hour = 7, minute = 30\<rparr> noted_report"
  have prep: "fst (fill_prepare ?env noted_report ?d) = (Next ?m :: (mapping_entry list, bool) outcome)"
    by (simp add: fill_prepare_def andthen_def time_sleep_def driver_find_elements_def query_def
        elem_get_attribute_def lift_def proceed_def parse_report_date_def sample_defs)
  note stage_part = fill_is_best_effort
    [where env = ?env and form_data = noted_report and d = ?d and mapping = ?m,
      THEN conjunct2, THEN conjunct2, THEN conjunct2, THEN conjunct2, THEN conjunct2,
      THEN conjunct2, THEN conjunct2, THEN conjunct2, THEN conjunct2, THEN conjunct2,
      THEN conjunct1, THEN mp, OF prep, THEN conjunct1]
  have ok: "fst (fill_form_fields ?env noted_report ?d) = Inr True"
    unfolding stage_part by simp
  have trace: "calls (snd (fill_form_fields ?env noted_report ?d))
     = calls (snd (fill_prepare ?env noted_report ?d :: (mapping_entry list, bool) outcome \<times> nat driver))
       @ [FindElement (ID, ''frmReport_dcObsDate_di''), Did (Clear 10),
          Did (SendKeys 10 ''01/05/2024''),
          FindElement (ID, ''frmReport_tObsTime_txtTime''), Did (Clear 11),
          Did (SendKeys 11 ''07:30''),
          FindElement (ID, ''frmReport_prTotalPrecip__ctl1_tbPrecip''),
          FindElement (ID, ''frmReport_prNewSnowAmount__ctl1_tbPrecip''), Did (Clear 12),
          Did (SendKeys 12 ''2''),
          FindElement (ID, ''frmReport_txtNotes''), Did (Clear 14),
          Did (SendKeys 14 ''windy'')]"
    unfolding stage_part by (simp add: model_defs sample_defs)
  have site: "find_element sample_form_page (ID, ''frmReport_prTotalPrecip__ctl1_tbPrecip'')
       = Inl (NoSuchElementException ''no such element'')"
    "react ?env (SendKeys 11 ''07:30'') 1
       = (Some (WebDriverException ''element not interactable''), 1)"
    by (simp_all add: sample_form_page_def no_element_def sample_env_def)
  from site ok trace show ?thesis
    by (intro conjI)
qed

lemma stage_total: "\<exists>b d'. stage body d = (Inr b, d')"
  by (cases "body d") (auto simp: stage_def split: outcome.splits)

lemma endpoint_no_session:
  "get_truthy form_data ''reportDate'' \<Longrightarrow> setup_driver env = Inl x \<Longrightarrow>
   submit_cocorahs env form_data
     = (\<lparr>success = False, message = ''Server error: '' @ str_exn x, status = 500\<rparr>, None)"
  by (simp add: submit_cocorahs_def server_error_def failure_def)

lemma endpoint_login_failed:
  "get_truthy form_data ''reportDate'' \<Longrightarrow> setup_driver env = Inr d0 \<Longrightarrow>
   login_to_cocorahs env d0 = (Inr False, d1) \<Longrightarrow>
   submit_cocorahs env form_data
     = (\<lparr>success = False, message = ''Failed to log in to CoCoRaHS'', status = 401\<rparr>,
        Some (driver_quit d1))"
  by (simp add: submit_cocorahs_def with_quit_def run_stages_def failure_def)

lemma endpoint_navigation_failed:
  "get_truthy form_data ''reportDate'' \<Longrightarrow> setup_driver env = Inr d0 \<Longrightarrow>
   login_to_cocorahs env d0 = (Inr True, d1) \<Longrightarrow>
   navigate_to_precip_form env d1 = (Inr False, d2) \<Longrightarrow>
   submit_cocorahs env form_data
     = (\<lparr>success = False, message = ''Failed to navigate to precipitation report form'',
         status = 400\<rparr>,
        Some (driver_quit d2))"
  by (simp add: submit_cocorahs_def with_quit_def run_stages_def failure_def)

lemma endpoint_fill_failed:
  "get_truthy form_data ''reportDate'' \<Longrightarrow> setup_driver env = Inr d0 \<Longrightarrow>
   login_to_cocorahs env d0 = (Inr True, d1) \<Longrightarrow>
   navigate_to_precip_form env d1 = (Inr True, d2) \<Longrightarrow>
   fst (fill_form_fields env form_data d2) = Inr False \<Longrightarrow>
   submit_cocorahs env form_data
     = (\<lparr>success = False, message = ''Failed to fill form fields'', status = 400\<rparr>,
        Some (driver_quit (snd (fill_form_fields env form_data d2))))"
  by (cases "fill_form_fields env form_data d2")
    (simp add: submit_cocorahs_def with_quit_def run_stages_def select_station_def failure_def)

lemma endpoint_accepts_date:
  "get_truthy form_data ''reportDate'' \<Longrightarrow>
   message (fst (submit_cocorahs env form_data)) \<noteq> ''Report date is required''"
  by (simp add: submit_cocorahs_def with_quit_def run_stages_def select_station_def
      failure_def server_error_def split: prod.splits sum.splits)

text \<open>
  C10, as amended: for every request whose report date is present and not empty but is
  not accepted as a timestamp (the parse of line 256 raises), validation lets the request
  through, and the fill stage returns failure from whatever driver state it is started
  in. What the caller receives follows the stages: the 500 server-error response when the
  session cannot be created; the 401 response when the authentication stage fails; the
  400 response of the navigation stage when that one fails; and, when the session is
  created and authentication and navigation succeed, the 400 response with the fill
  stage's message "Failed to fill form fields", from a session that was released.
  Authentication and navigation always return success or failure, so these are all the
  cases, and none of the responses names the timestamp.
\<close>

theorem bad_date_fails_in_fill_stage:
  assumes "get_truthy form_data ''reportDate''"
    and "parse_report_date env form_data = Inl e"
  shows "message (fst (submit_cocorahs env form_data)) \<noteq> ''Report date is required''
       \<and> fst (fill_form_fields env form_data d) = Inr False
       \<and> (setup_driver env = Inl x \<longrightarrow>
          submit_cocorahs env form_data
            = (\<lparr>success = False, message = ''Server error: '' @ str_exn x, status = 500\<rparr>, None))
       \<and> (setup_driver env = Inr d0 \<and> login_to_cocorahs env d0 = (Inr False, d1) \<longrightarrow>
          submit_cocorahs env form_data
            = (\<lparr>success = False, message = ''Failed to log in to CoCoRaHS'', status = 401\<rparr>,
               Some (driver_quit d1)))
       \<and> (setup_driver env = Inr d0 \<and> login_to_cocorahs env d0 = (Inr True, d1)
            \<and> navigate_to_precip_form env d1 = (Inr False, d2) \<longrightarrow>
          submit_cocorahs env form_data
            = (\<lparr>success = False, message = ''Failed to navigate to precipitation report form'',
                status = 400\<rparr>,
               Some (driver_quit d2)))
       \<and> (setup_driver env = Inr d0 \<and> login_to_cocorahs env d0 = (Inr True, d1)
            \<and> navigate_to_precip_form env d1 = (Inr True, d2) \<longrightarrow>
          submit_cocorahs env form_data
            = (\<lparr>success = False, message = ''Failed to fill form fields'', status = 400\<rparr>,
               Some (driver_quit (snd (fill_form_fields env form_data d2)))))
       \<and> (\<exists>b d1. login_to_cocorahs env d0 = (Inr b, d1))
       \<and> (\<exists>b d2. navigate_to_precip_form env d1 = (Inr b, d2))"
  apply (intro conjI impI)
  subgoal using assms(1) by (rule endpoint_accepts_date)
  subgoal using assms(2) by (rule fill_fails_without_date)
  subgoal using assms(1) by (rule endpoint_no_session)
  subgoal using assms(1) by (elim conjE) (rule endpoint_login_failed)
  subgoal using assms(1) by (elim conjE) (rule endpoint_navigation_failed)
  subgoal using assms(1) fill_fails_without_date [OF assms(2), of d2]
    by (elim conjE) (rule endpoint_fill_failed)
  subgoal unfolding login_to_cocorahs_def by (rule stage_total)
  subgoal unfolding navigate_to_precip_form_def by (rule stage_total)
  done

theorem bad_date_fails_in_fill_stage_witness:
  "fst (submit_cocorahs (sample_env True sample_both_page) undated_report)
     = \<lparr>success = False, message = ''Failed to fill form fields'', status = 400\<rparr>
   \<and> fst (submit_cocorahs (sample_env False sample_both_page) undated_report)
     = \<lparr>success = False, message = ''Failed to log in to CoCoRaHS'', status = 401\<rparr>
   \<and> submit_cocorahs no_chrome_env undated_report
     = (\<lparr>success = False, message = ''Server error: chrome not reachable'', status = 500\<rparr>, None)"
proof -
  let ?yes = "sample_env True sample_both_page"
  let ?no = "sample_env False sample_both_page"
  let ?d0 = "\<lparr>world = 0 :: nat, calls = []\<rparr>"
  have truthy: "get_truthy undated_report ''reportDate''"
    by (simp add: get_truthy_def undated_report_def)
  have parse: "parse_report_date ?yes undated_report
                 = Inl (ValueError ''Invalid isoformat string: yesterday'')"
    "parse_report_date ?no undated_report
                 = Inl (ValueError ''Invalid isoformat string: yesterday'')"
    "parse_report_date no_chrome_env undated_report
                 = Inl (ValueError ''Invalid isoformat string: yesterday'')"
    by (simp_all add: parse_report_date_def undated_report_def sample_env_def sample_parse_def
        no_chrome_env_def)
  have created: "setup_driver ?yes = Inr ?d0" "setup_driver ?no = Inr ?d0"
    "setup_driver no_chrome_env = Inl (WebDriverException ''chrome not reachable'')"
    by (simp_all add: setup_driver_def sample_env_def no_chrome_env_def)
  have "fst (login_to_cocorahs ?yes ?d0) = Inr True"
    by (simp add: model_defs sample_defs)
  then have login: "login_to_cocorahs ?yes ?d0 = (Inr True, snd (login_to_cocorahs ?yes ?d0))"
    by (rule pair_of_fst)
  have "fst (navigate_to_precip_form ?yes (snd (login_to_cocorahs ?yes ?d0))) = Inr True"
    by (simp add: model_defs sample_defs)
  then have nav: "navigate_to_precip_form ?yes (snd (login_to_cocorahs ?yes ?d0))
      = (Inr True, snd (navigate_to_precip_form ?yes (snd (login_to_cocorahs ?yes ?d0))))"
    by (rule pair_of_fst)
  have "fst (login_to_cocorahs ?no ?d0) = Inr False"
    by (simp add: model_defs sample_defs)
  then have refused: "login_to_cocorahs ?no ?d0 = (Inr False, snd (login_to_cocorahs ?no ?d0))"
    by (rule pair_of_fst)
  have fill: "fst (submit_cocorahs ?yes undated_report)
     = \<lparr>success = False, message = ''Failed to fill form fields'', status = 400\<rparr>"
    using bad_date_fails_in_fill_stage
      [OF truthy parse(1), THEN conjunct2, THEN conjunct2, THEN conjunct2, THEN conjunct2,
        THEN conjunct2, THEN conjunct1, THEN mp, OF conjI [OF created(1) conjI [OF login nav]]]
    by simp
  have auth: "fst (submit_cocorahs ?no undated_report)
     = \<lparr>success = False, message = ''Failed to log in to CoCoRaHS'', status = 401\<rparr>"
    using bad_date_fails_in_fill_stage
      [OF truthy parse(2), THEN conjunct2, THEN conjunct2, THEN conjunct2, THEN conjunct1,
        THEN mp, OF conjI [OF created(2) refused]]
    by simp
  have none: "submit_cocorahs no_chrome_env undated_report
     = (\<lparr>success = False, message = ''Server error: chrome not reachable'', status = 500\<rparr>, None)"
    using bad_date_fails_in_fill_stage
      [OF truthy parse(3), THEN conjunct2, THEN conjunct2, THEN conjunct1, THEN mp, OF created(3)]
    by simp
  from fill auth none show ?thesis
    by (intro conjI)
qed

text \<open>
  The claim C10 as it was stated fails where the site refuses the login: the request
  with the date "yesterday" passes validation and its date does not parse, yet the run
  does not reach the fill stage, and the caller gets the 401 response of the
  authentication stage.
\<close>

theorem bad_date_login_refused_counterexample:
  "get_truthy undated_report ''reportDate''
   \<and> parse_report_date (sample_env False sample_both_page) undated_report
       = Inl (ValueError ''Invalid isoformat string: yesterday'')
   \<and> fst (submit_cocorahs (sample_env False sample_both_page) undated_report)
       = \<lparr>success = False, message = ''Failed to log in to CoCoRaHS'', status = 401\<rparr>
   \<and> fst (submit_cocorahs (sample_env False sample_both_page) undated_report)
       \<noteq> \<lparr>success = False, message = ''Failed to fill form fields'', status = 400\<rparr>"
  by (simp add: model_defs sample_defs)

end
